theory Spec2Isabelle
  imports Complex_Main "HOL-Library.Word"
begin

unbundle bit_operations_syntax

section \<open>The outside world: library calls and their answers\<close>

text \<open>
  The firmware is sequential code over three external libraries (the two-wire bus, the
  cellular modem, the OLED display) and the board support functions. Every call into one
  of them is recorded as an \<open>event\<close>, in program order, in the \<open>trace\<close> of the state.
  What a call returns is not decided by this repository: it is read from an environment
  \<open>env\<close>, a function of the whole history of calls up to and including the call itself,
  so that any behaviour of the hardware is one environment.
\<close>

type_synonym uint8_t = "8 word"
type_synonym uint16_t = "16 word"
type_synonym uint32_t = "32 word"

text \<open>Calls on a \<open>TwoWire\<close> bus object.\<close>

datatype wire_call =
    WBegin uint8_t uint8_t uint32_t
  | WBeginTransmission uint8_t
  | WWrite uint8_t
  | WEndTransmission
  | WRequestFrom uint8_t nat
  | WRead

text \<open>An argument of a \<open>printf\<close>-style call.\<close>

datatype parg = PInt int | PStr string | PFloat real

text \<open>
  Enumerators of the modem library that the sketch names; the library's other enumerators
  are the \<open>_other\<close> constructors.
\<close>

datatype WalterModemRAT =
    WALTER_MODEM_RAT_LTEM
  | WALTER_MODEM_RAT_NBIOT
  | WALTER_MODEM_RAT_other nat

datatype WalterModemNetworkRegState =
    WALTER_MODEM_NETWORK_REG_REGISTERED_HOME
  | WALTER_MODEM_NETWORK_REG_REGISTERED_ROAMING
  | WALTER_MODEM_NETWORK_REG_other nat

datatype pin_mode = OUTPUT
datatype pin_level = LOW | HIGH

text \<open>
  The calls. An argument that is a variable of the sketch is an argument of the event; a
  call that the sketch always makes with the same library constant has the constant in
  its name: \<open>ScreenBegin a\<close> is \<open>screen.begin(SSD1306_SWITCHCAPVCC, a)\<close>,
  \<open>ScreenSetTextColor\<close> is \<open>setTextColor(SSD1306_WHITE)\<close>, \<open>EspReadMac\<close> is
  \<open>esp_read_mac(dataBuf, ESP_MAC_WIFI_STA)\<close>, \<open>ModemBegin\<close> is
  \<open>modem.begin(&Serial2)\<close>, \<open>ModemSetOpStateFull\<close> and
  \<open>ModemSetNetworkSelectionModeAutomatic\<close> are the two calls of \<open>lteConnect\<close>,
  \<open>ModemGetCellInformation\<close> asks for the serving cell. \<open>ModemSocketSend b n\<close> is
  \<open>socketSend(dataBuf, n)\<close> with \<open>b\<close> the contents of \<open>dataBuf\<close> at the call.
\<close>

datatype event =
    Wire nat wire_call
  | Delay nat
  | SerialBegin nat
  | SerialPrint string
  | SerialPrintln string
  | SerialPrintf string "parg list"
  | PinMode nat pin_mode
  | DigitalWrite nat pin_level
  | ScreenBegin uint8_t
  | ScreenSetTextColor
  | ScreenClearDisplay
  | ScreenSetCursor nat nat
  | ScreenSetTextSize nat
  | ScreenPrint string
  | ScreenPrintf string "parg list"
  | ScreenDisplay
  | EspReadMac
  | EspRestart
  | ModemBegin
  | ModemGetRAT
  | ModemSetRAT WalterModemRAT
  | ModemCreatePDPContext string
  | ModemSetOpStateFull
  | ModemSetNetworkSelectionModeAutomatic
  | ModemGetNetworkRegState
  | ModemCreateSocket
  | ModemConfigSocket
  | ModemConnectSocket string uint16_t uint16_t
  | ModemSocketSend "uint8_t list" nat
  | ModemGetCellInformation
  | ModemCloseSocket

text \<open>
  Modelled from the spec: the cell-network metadata of the packet, which is the modem
  library's cell-information response (the structure is declared in the external modem
  library, not in this repository). The fields are those the sketch reads. The country
  code, network code and tracking area code are given the two bytes each, and the cell ID
  the four bytes, that the sketch's packing code stores for them; a narrower field of the
  library is covered by its values. The signal figures are floating-point numbers,
  modelled by their real values.
\<close>

record WalterModemCellInformation =
  band :: uint8_t
  netName :: string
  cc :: uint16_t
  nc :: uint16_t
  tac :: uint16_t
  cid :: uint32_t
  rsrp :: real
  rsrq :: real

text \<open>
  The environment. \<open>ret\<close> is the integer a call returns (a \<open>bool\<close> is false exactly
  when it is 0); the other fields are what a call stores through a pointer argument or
  returns as an enumerator. \<open>float_ub\<close> is what the platform makes of a
  floating-point value converted to \<open>uint8_t\<close> when its integer part does not fit, which
  C++ leaves undefined.
\<close>

record env =
  ret :: "event list \<Rightarrow> int"
  rat_rsp :: "event list \<Rightarrow> WalterModemRAT"
  regstate_rsp :: "event list \<Rightarrow> WalterModemNetworkRegState"
  cell_rsp :: "event list \<Rightarrow> WalterModemCellInformation"
  mac_rsp :: "event list \<Rightarrow> nat \<Rightarrow> uint8_t"
  float_ub :: "real \<Rightarrow> uint8_t"

definition PACKET_SIZE :: nat where
  "PACKET_SIZE = 20"

text \<open>
  The program state: the trace of library calls so far and the sketch's globals, the
  transmit buffer \<open>dataBuf\<close> and the static response structure \<open>rsp\<close> of \<open>loop\<close>.
\<close>

record state =
  trace :: "event list"
  dataBuf :: "uint8_t list"
  rsp :: WalterModemCellInformation

text \<open>A library call whose return value is used, and one whose return value is discarded.\<close>

definition call :: "env \<Rightarrow> event \<Rightarrow> state \<Rightarrow> int \<times> state" where
  "call e ev s = (ret e (trace s @ [ev]), s\<lparr>trace := trace s @ [ev]\<rparr>)"

definition exec :: "env \<Rightarrow> event \<Rightarrow> state \<Rightarrow> state" where
  "exec e ev s = snd (call e ev s)"

section \<open>DecibelMeter.hpp, DecibelMeter.cpp\<close>

definition DBM_ADDR :: uint8_t where "DBM_ADDR = 0x48"

definition DBM_REG_VERSION :: uint8_t where "DBM_REG_VERSION = 0x00"
definition DBM_REG_ID3 :: uint8_t where "DBM_REG_ID3 = 0x01"
definition DBM_REG_ID2 :: uint8_t where "DBM_REG_ID2 = 0x02"
definition DBM_REG_ID1 :: uint8_t where "DBM_REG_ID1 = 0x03"
definition DBM_REG_ID0 :: uint8_t where "DBM_REG_ID0 = 0x04"
definition DBM_REG_TAVG_HIGH :: uint8_t where "DBM_REG_TAVG_HIGH = 0x07"
definition DBM_REG_TAVG_LOW :: uint8_t where "DBM_REG_TAVG_LOW = 0x08"
definition DBM_REG_RESET :: uint8_t where "DBM_REG_RESET = 0x09"
definition DBM_REG_DECIBEL :: uint8_t where "DBM_REG_DECIBEL = 0x0A"
definition DBM_REG_MIN :: uint8_t where "DBM_REG_MIN = 0x0B"
definition DBM_REG_MAX :: uint8_t where "DBM_REG_MAX = 0x0C"

text \<open>The object: the bus it owns (by its bus number) and the three stored parameters.\<close>

record DecibelMeter =
  wire :: nat
  sda :: uint8_t
  scl :: uint8_t
  frequency :: uint32_t

definition DecibelMeter_new :: "uint8_t \<Rightarrow> uint8_t \<Rightarrow> uint32_t \<Rightarrow> DecibelMeter" where
  "DecibelMeter_new a b f = \<lparr>wire = 0, sda = a, scl = b, frequency = f\<rparr>"

definition begin_dm :: "env \<Rightarrow> DecibelMeter \<Rightarrow> state \<Rightarrow> bool \<times> state" where
  "begin_dm e dm s =
     (let s = exec e (Wire (wire dm) (WBegin (sda dm) (scl dm) (frequency dm))) s
      in (True, s))"

text \<open>
  \<open>readRegister\<close>: the value of \<open>_wire.read()\<close> is an \<open>int\<close>; returning it as
  \<open>uint8_t\<close> keeps its low eight bits.
\<close>

definition readRegister :: "env \<Rightarrow> DecibelMeter \<Rightarrow> uint8_t \<Rightarrow> state \<Rightarrow> uint8_t \<times> state" where
  "readRegister e dm regaddr s =
     (let s = exec e (Wire (wire dm) (WBeginTransmission DBM_ADDR)) s;
          s = exec e (Wire (wire dm) (WWrite regaddr)) s;
          s = exec e (Wire (wire dm) WEndTransmission) s;
          s = exec e (Wire (wire dm) (WRequestFrom DBM_ADDR 1)) s;
          s = exec e (Delay 10) s;
          (r, s) = call e (Wire (wire dm) WRead) s
      in (word_of_int r, s))"

definition writeRegister :: "env \<Rightarrow> DecibelMeter \<Rightarrow> uint8_t \<Rightarrow> uint8_t \<Rightarrow> state \<Rightarrow> state" where
  "writeRegister e dm regaddr v s =
     (let s = exec e (Wire (wire dm) (WBeginTransmission DBM_ADDR)) s;
          s = exec e (Wire (wire dm) (WWrite regaddr)) s;
          s = exec e (Wire (wire dm) (WWrite v)) s;
          s = exec e (Wire (wire dm) WEndTransmission) s
      in s)"

definition getVersion :: "env \<Rightarrow> DecibelMeter \<Rightarrow> state \<Rightarrow> uint8_t \<times> state" where
  "getVersion e dm s = readRegister e dm DBM_REG_VERSION s"

text \<open>
  \<open>getID\<close> stores through the caller's pointer; the caller's array is the list \<open>ident\<close>,
  returned updated. The source writes cells 0 to 3 whatever the array's size (a shorter
  array is the caller's error, outside C++'s defined behaviour); the model leaves a cell
  that the list does not have unwritten.
\<close>

definition getID :: "env \<Rightarrow> DecibelMeter \<Rightarrow> uint8_t list \<Rightarrow> state \<Rightarrow> uint8_t list \<times> state" where
  "getID e dm ident s =
     (let (r, s) = readRegister e dm DBM_REG_ID3 s; ident = ident[0 := r];
          (r, s) = readRegister e dm DBM_REG_ID2 s; ident = ident[1 := r];
          (r, s) = readRegister e dm DBM_REG_ID1 s; ident = ident[2 := r];
          (r, s) = readRegister e dm DBM_REG_ID0 s; ident = ident[3 := r]
      in (ident, s))"

definition readDecibel :: "env \<Rightarrow> DecibelMeter \<Rightarrow> state \<Rightarrow> uint8_t \<times> state" where
  "readDecibel e dm s = readRegister e dm DBM_REG_DECIBEL s"

definition readMinDecibel :: "env \<Rightarrow> DecibelMeter \<Rightarrow> state \<Rightarrow> uint8_t \<times> state" where
  "readMinDecibel e dm s = readRegister e dm DBM_REG_MIN s"

definition readMaxDecibel :: "env \<Rightarrow> DecibelMeter \<Rightarrow> state \<Rightarrow> uint8_t \<times> state" where
  "readMaxDecibel e dm s = readRegister e dm DBM_REG_MAX s"

definition setAveragingInterval :: "env \<Rightarrow> DecibelMeter \<Rightarrow> uint16_t \<Rightarrow> state \<Rightarrow> state" where
  "setAveragingInterval e dm intervalMs s =
     (let highByte = (ucast (drop_bit 8 intervalMs AND 0xFF) :: uint8_t);
          lowByte = (ucast (intervalMs AND 0xFF) :: uint8_t);
          s = writeRegister e dm DBM_REG_TAVG_HIGH highByte s;
          s = writeRegister e dm DBM_REG_TAVG_LOW lowByte s
      in s)"

definition resetMinMax :: "env \<Rightarrow> DecibelMeter \<Rightarrow> state \<Rightarrow> state" where
  "resetMinMax e dm s = writeRegister e dm DBM_REG_RESET 0b00000010 s"

section \<open>The sketch\<close>

definition CRLF :: string where
  "CRLF = [CHR 0x0D, CHR 0x0A]"

definition LF :: string where
  "LF = [CHR 0x0A]"

definition SERV_ADDR :: string where "SERV_ADDR = ''64.225.64.140''"
definition SERV_PORT :: uint16_t where "SERV_PORT = 1999"
definition RADIO_TECHNOLOGY :: WalterModemRAT where "RADIO_TECHNOLOGY = WALTER_MODEM_RAT_LTEM"
definition DB_METER_SDA :: uint8_t where "DB_METER_SDA = 10"
definition DB_METER_SCL :: uint8_t where "DB_METER_SCL = 9"
definition SCREEN_SDA :: uint8_t where "SCREEN_SDA = 16"
definition SCREEN_SCL :: uint8_t where "SCREEN_SCL = 17"
definition SCREEN_ADDRESS :: uint8_t where "SCREEN_ADDRESS = 0x3C"

definition dbmeter :: DecibelMeter where
  "dbmeter = DecibelMeter_new DB_METER_SDA DB_METER_SCL 10000"

text \<open>
  How a function of the sketch ends: it returns to the runtime, or it has called
  \<open>ESP.restart()\<close>, after which the device reboots and nothing more of the program runs.
\<close>

datatype outcome = Returned | Restarted

text \<open>The globals at boot: \<open>dataBuf\<close> is \<open>{ 0 }\<close>, the static \<open>rsp\<close> is \<open>{}\<close>.\<close>

definition boot_state :: state where
  "boot_state =
     \<lparr>trace = [], dataBuf = replicate PACKET_SIZE 0,
      rsp = \<lparr>band = 0, netName = [], cc = 0, nc = 0, tac = 0, cid = 0, rsrp = 0, rsrq = 0\<rparr>\<rparr>"

text \<open>
  The modem calls that answer through more than their return value. What
  \<open>getCellInformation\<close> leaves in the response structure is the environment's, on
  failure as on success; the sketch reads it only after a success.
\<close>

definition getNetworkRegState :: "env \<Rightarrow> state \<Rightarrow> WalterModemNetworkRegState \<times> state" where
  "getNetworkRegState e s =
     (let s = exec e ModemGetNetworkRegState s in (regstate_rsp e (trace s), s))"

definition getRAT :: "env \<Rightarrow> state \<Rightarrow> int \<times> WalterModemRAT \<times> state" where
  "getRAT e s = (let (r, s) = call e ModemGetRAT s in (r, rat_rsp e (trace s), s))"

definition getCellInformation :: "env \<Rightarrow> state \<Rightarrow> int \<times> state" where
  "getCellInformation e s =
     (let (r, s) = call e ModemGetCellInformation s in (r, s\<lparr>rsp := cell_rsp e (trace s)\<rparr>))"

text \<open>\<open>esp_read_mac(dataBuf, ESP_MAC_WIFI_STA)\<close> stores the six bytes of the MAC address.\<close>

definition esp_read_mac :: "env \<Rightarrow> state \<Rightarrow> state" where
  "esp_read_mac e s =
     (let s = exec e EspReadMac s; m = mac_rsp e (trace s)
      in s\<lparr>dataBuf := (dataBuf s)[0 := m 0, 1 := m 1, 2 := m 2, 3 := m 3, 4 := m 4, 5 := m 5]\<rparr>)"

text \<open>
  A floating-point value converted to \<open>uint8_t\<close>: the fraction is dropped (towards
  zero); C++ defines the result only when the integer part fits, which is when the value
  lies strictly between -1 and 256.
\<close>

definition float_to_uint8 :: "env \<Rightarrow> real \<Rightarrow> uint8_t" where
  "float_to_uint8 e x =
     (if -1 < x \<and> x < 256 then word_of_int (if 0 \<le> x then \<lfloor>x\<rfloor> else \<lceil>x\<rceil>)
      else float_ub e x)"

text \<open>\<open>lteConnect\<close>; its polling loop runs while the fuel lasts.\<close>

fun lteConnect_wait :: "nat \<Rightarrow> env \<Rightarrow> WalterModemNetworkRegState \<Rightarrow> state \<Rightarrow> state option" where
  "lteConnect_wait 0 e regState s =
     (if \<not> (regState = WALTER_MODEM_NETWORK_REG_REGISTERED_HOME \<or>
             regState = WALTER_MODEM_NETWORK_REG_REGISTERED_ROAMING)
      then None else Some s)"
| "lteConnect_wait (Suc fuel) e regState s =
     (if \<not> (regState = WALTER_MODEM_NETWORK_REG_REGISTERED_HOME \<or>
             regState = WALTER_MODEM_NETWORK_REG_REGISTERED_ROAMING)
      then (let s = exec e (Delay 100) s;
                (regState, s) = getNetworkRegState e s
            in lteConnect_wait fuel e regState s)
      else Some s)"

definition lteConnect :: "nat \<Rightarrow> env \<Rightarrow> state \<Rightarrow> (bool \<times> state) option" where
  "lteConnect fuel e s =
     (let (r, s) = call e ModemSetOpStateFull s in
      if r = 0
      then Some (False, exec e (SerialPrint (''Could not set operational state to FULL'' @ CRLF)) s)
      else
        let (r, s) = call e ModemSetNetworkSelectionModeAutomatic s in
        if r = 0
        then Some (False, exec e (SerialPrint
               (''Could not set the network selection mode to automatic'' @ CRLF)) s)
        else
          let (regState, s) = getNetworkRegState e s in
          case lteConnect_wait fuel e regState s of
            None \<Rightarrow> None
          | Some s \<Rightarrow> Some (True, exec e (SerialPrint (''Connected to the network'' @ CRLF)) s))"

definition socketConnect :: "env \<Rightarrow> string \<Rightarrow> uint16_t \<Rightarrow> state \<Rightarrow> bool \<times> state" where
  "socketConnect e ip port s =
     (let (r, s) = call e ModemCreateSocket s in
      if r = 0
      then (False, exec e (SerialPrint (''Could not create a new socket'' @ CRLF)) s)
      else
        let (r, s) = call e ModemConfigSocket s in
        if r = 0
        then (False, exec e (SerialPrint (''Could not configure the socket'' @ CRLF)) s)
        else
          let (r, s) = call e (ModemConnectSocket ip port port) s in
          if r \<noteq> 0
          then (True, exec e (SerialPrintf (''Connected to UDP server %s:%d'' @ CRLF)
                  [PStr ip, PInt (uint port)]) s)
          else (False, exec e (SerialPrint (''Could not connect UDP socket'' @ CRLF)) s))"

definition displayStatus :: "env \<Rightarrow> string \<Rightarrow> state \<Rightarrow> state" where
  "displayStatus e status s =
     (let s = exec e ScreenSetTextColor s;
          s = exec e ScreenClearDisplay s;
          s = exec e (ScreenSetCursor 0 0) s;
          s = exec e (ScreenSetTextSize 1) s;
          s = exec e (ScreenPrint status) s;
          s = exec e ScreenDisplay s
      in s)"

definition displaySPL :: "env \<Rightarrow> uint8_t \<Rightarrow> uint8_t \<Rightarrow> uint8_t \<Rightarrow> state \<Rightarrow> state" where
  "displaySPL e db dbmin dbmax s =
     (let s = exec e ScreenSetTextColor s;
          s = exec e ScreenClearDisplay s;
          s = exec e (ScreenSetTextSize 2) s;
          s = exec e (ScreenSetCursor 0 0) s;
          s = exec e (ScreenPrintf ''Avg: %ddB'' [PInt (uint db)]) s;
          s = exec e (ScreenSetCursor 0 25) s;
          s = exec e (ScreenPrintf ''Min: %ddB'' [PInt (uint dbmin)]) s;
          s = exec e (ScreenSetCursor 0 50) s;
          s = exec e (ScreenPrintf ''Max: %ddB'' [PInt (uint dbmax)]) s;
          s = exec e ScreenDisplay s
      in s)"

text \<open>The retry loop around \<open>screen.begin\<close> in \<open>setup\<close>, while the fuel lasts.\<close>

fun screen_begin_loop :: "nat \<Rightarrow> env \<Rightarrow> state \<Rightarrow> state option" where
  "screen_begin_loop 0 e s =
     (let (r, s) = call e (ScreenBegin SCREEN_ADDRESS) s in
      if r = 0 then None else Some s)"
| "screen_begin_loop (Suc fuel) e s =
     (let (r, s) = call e (ScreenBegin SCREEN_ADDRESS) s in
      if r = 0
      then (let s = exec e (SerialPrintln ''SSD1306 allocation failed'') s;
                s = exec e (Delay 1000) s
            in screen_begin_loop fuel e s)
      else Some s)"

text \<open>
  The sketch's \<open>setup\<close> function (\<open>setup_sketch\<close>), in three parts: up to the display,
  the sensor and the MAC address, the modem.
\<close>

definition setup_display :: "nat \<Rightarrow> env \<Rightarrow> state \<Rightarrow> state option" where
  "setup_display fuel e s =
     (let s = exec e (SerialBegin 115200) s;
          s = exec e (Delay 5000) s;
          s = exec e (SerialPrint (''Sound Pressure Level sensor v0.0.2'' @ CRLF)) s;
          s = exec e (PinMode 8 OUTPUT) s;
          s = exec e (PinMode 18 OUTPUT) s;
          s = exec e (DigitalWrite 8 LOW) s;
          s = exec e (DigitalWrite 18 HIGH) s;
          s = exec e (PinMode 0 OUTPUT) s;
          s = exec e (DigitalWrite 0 LOW) s;
          s = exec e (Delay 50) s;
          s = exec e (Wire 1 (WBegin SCREEN_SDA SCREEN_SCL 400000)) s
      in screen_begin_loop fuel e s)"

definition setup_sensor :: "env \<Rightarrow> state \<Rightarrow> state" where
  "setup_sensor e s =
     (let s = displayStatus e ''Booting SPL v0.0.2'' s;
          s = exec e (Delay 1000) s;
          s = snd (begin_dm e dbmeter s);
          (v, s) = getVersion e dbmeter s;
          s = exec e (SerialPrintf (''Decibel meter version: 0x%02X'' @ LF) [PInt (uint v)]) s;
          s = setAveragingInterval e dbmeter 1000 s;
          s = resetMinMax e dbmeter s;
          s = esp_read_mac e s;
          s = exec e (SerialPrintf (''Walter's MAC is: %02X:%02X:%02X:%02X:%02X:%02X'' @ CRLF)
                [PInt (uint (dataBuf s ! 0)), PInt (uint (dataBuf s ! 1)),
                 PInt (uint (dataBuf s ! 2)), PInt (uint (dataBuf s ! 3)),
                 PInt (uint (dataBuf s ! 4)), PInt (uint (dataBuf s ! 5))]) s
      in s)"

definition setup_modem :: "nat \<Rightarrow> env \<Rightarrow> state \<Rightarrow> (outcome \<times> state) option" where
  "setup_modem fuel e s =
     (let s = displayStatus e ''Starting modem...'' s;
          (r, s) = call e ModemBegin s
      in
      if r = 0
      then (let s = exec e (SerialPrint (''Modem initialization ERROR'' @ CRLF)) s;
                s = exec e (Delay 1000) s;
                s = exec e EspRestart s
            in Some (Restarted, s))
      else
        let s = exec e (SerialPrint (''Modem initialization OK'' @ CRLF)) s;
            (r, rat, s) = getRAT e s;
            s = (if r \<noteq> 0
                 then (if rat \<noteq> RADIO_TECHNOLOGY
                       then (let s = exec e (ModemSetRAT RADIO_TECHNOLOGY) s
                             in exec e (SerialPrintln ''Switched modem radio technology'') s)
                       else s)
                 else exec e (SerialPrintln ''Could not retrieve radio access technology'') s);
            (r, s) = call e (ModemCreatePDPContext []) s
        in
        if r = 0
        then (let s = exec e (SerialPrintln ''Could not create PDP context'') s;
                  s = exec e (Delay 1000) s;
                  s = exec e EspRestart s
              in Some (Restarted, s))
        else
          let s = displayStatus e ''Connecting...'' s in
          case lteConnect fuel e s of
            None \<Rightarrow> None
          | Some (ok, s) \<Rightarrow>
              if \<not> ok
              then (let s = exec e (SerialPrint (''Could not connect to the LTE network'' @ CRLF)) s;
                        s = exec e (Delay 1000) s;
                        s = exec e EspRestart s
                    in Some (Restarted, s))
              else Some (Returned, s))"

definition setup_sketch :: "nat \<Rightarrow> env \<Rightarrow> state \<Rightarrow> (outcome \<times> state) option" where
  "setup_sketch fuel e s =
     (case setup_display fuel e s of
        None \<Rightarrow> None
      | Some s \<Rightarrow> setup_modem fuel e (setup_sensor e s))"

text \<open>
  \<open>loop\<close>. The block that queries the cell information and copies it into the packet
  stands twice in the source, word for word, before the socket is opened and after the
  packet is sent; it is \<open>cell_block\<close> here. \<open>loop_measure\<close> is the part of \<open>loop\<close> before
  the first of the two.
\<close>

definition cell_block :: "env \<Rightarrow> state \<Rightarrow> state" where
  "cell_block e s =
     (let (r, s) = getCellInformation e s in
      if r = 0
      then exec e (SerialPrintln ''Could not request cell information'') s
      else
        let ci = rsp s;
            s = exec e (SerialPrintf ''Connected on band %u using operator %s (%u%02u)''
                  [PInt (uint (band ci)), PStr (netName ci), PInt (uint (cc ci)),
                   PInt (uint (nc ci))]) s;
            s = exec e (SerialPrintf ('' and cell ID %u.'' @ CRLF) [PInt (uint (cid ci))]) s;
            s = exec e (SerialPrintf (''Signal strength: RSRP: %.2f, RSRQ: %.2f.'' @ CRLF)
                  [PFloat (rsrp ci), PFloat (rsrq ci)]) s
        in s\<lparr>dataBuf := (dataBuf s)
              [9 := ucast (drop_bit 8 (cc ci)),
               10 := ucast (cc ci AND 0xFF),
               11 := ucast (drop_bit 8 (nc ci)),
               12 := ucast (nc ci AND 0xFF),
               13 := ucast (drop_bit 8 (tac ci)),
               14 := ucast (tac ci AND 0xFF),
               15 := ucast (drop_bit 24 (cid ci) AND 0xFF),
               16 := ucast (drop_bit 16 (cid ci) AND 0xFF),
               17 := ucast (drop_bit 8 (cid ci) AND 0xFF),
               18 := ucast (cid ci AND 0xFF),
               19 := float_to_uint8 e (rsrp ci * (-1))]\<rparr>)"

definition loop_measure :: "env \<Rightarrow> state \<Rightarrow> uint8_t \<times> uint8_t \<times> uint8_t \<times> state" where
  "loop_measure e s =
     (let (db, s) = readDecibel e dbmeter s;
          (dbmin, s) = readMinDecibel e dbmeter s;
          (dbmax, s) = readMaxDecibel e dbmeter s;
          s = exec e (SerialPrintf (''dB = %03d [MIN: %03d, MAX: %03d]'' @ LF)
                [PInt (uint db), PInt (uint dbmin), PInt (uint dbmax)]) s;
          s = displayStatus e ''Transmitting...'' s;
          s = resetMinMax e dbmeter s;
          s = s\<lparr>dataBuf := (dataBuf s)[6 := db]\<rparr>;
          s = s\<lparr>dataBuf := (dataBuf s)[7 := dbmin]\<rparr>;
          s = s\<lparr>dataBuf := (dataBuf s)[8 := dbmax]\<rparr>
      in (db, dbmin, dbmax, s))"

definition loop :: "env \<Rightarrow> state \<Rightarrow> outcome \<times> state" where
  "loop e s =
     (let (db, dbmin, dbmax, s) = loop_measure e s;
          s = cell_block e s;
          (ok, s) = socketConnect e SERV_ADDR SERV_PORT s
      in
      if \<not> ok
      then (let s = exec e (SerialPrint (''Could not connect to UDP server socket'' @ CRLF)) s;
                s = exec e (Delay 1000) s;
                s = exec e EspRestart s
            in (Restarted, s))
      else
        let (r, s) = call e (ModemSocketSend (dataBuf s) PACKET_SIZE) s in
        if r = 0
        then (let s = exec e (SerialPrint (''Could not transmit data'' @ CRLF)) s;
                  s = exec e (Delay 1000) s;
                  s = exec e EspRestart s
              in (Restarted, s))
        else
          let s = exec e (Delay 5000) s;
              s = cell_block e s;
              (r, s) = call e ModemCloseSocket s
          in
          if r = 0
          then (let s = exec e (SerialPrint (''Could not close the socket'' @ CRLF)) s;
                    s = exec e (Delay 1000) s;
                    s = exec e EspRestart s
                in (Restarted, s))
          else
            let s = displaySPL e db dbmin dbmax s;
                s = exec e (Delay 60000) s
            in (Returned, s))"

text \<open>
  The runtime calls \<open>loop\<close> again and again; \<open>run n\<close> is \<open>n\<close> calls of it, or fewer when
  one of them restarts the device.
\<close>

fun run :: "nat \<Rightarrow> env \<Rightarrow> state \<Rightarrow> outcome \<times> state" where
  "run 0 e s = (Returned, s)"
| "run (Suc n) e s =
     (case loop e s of
        (Restarted, s) \<Rightarrow> (Restarted, s)
      | (Returned, s) \<Rightarrow> run n e s)"

text \<open>The calls made between two states, and the packets among a list of calls.\<close>

definition new_calls :: "state \<Rightarrow> state \<Rightarrow> event list" where
  "new_calls s s' = drop (length (trace s)) (trace s')"

fun sent :: "event list \<Rightarrow> (uint8_t list \<times> nat) list" where
  "sent [] = []"
| "sent (ModemSocketSend b n # evs) = (b, n) # sent evs"
| "sent (ev # evs) = sent evs"

text \<open>The bus calls of one register read and of one register write, as lists.\<close>

definition read_calls :: "DecibelMeter \<Rightarrow> uint8_t \<Rightarrow> event list" where
  "read_calls dm regaddr =
     [Wire (wire dm) (WBeginTransmission DBM_ADDR), Wire (wire dm) (WWrite regaddr),
      Wire (wire dm) WEndTransmission, Wire (wire dm) (WRequestFrom DBM_ADDR 1),
      Delay 10, Wire (wire dm) WRead]"

definition write_calls :: "DecibelMeter \<Rightarrow> uint8_t \<Rightarrow> uint8_t \<Rightarrow> event list" where
  "write_calls dm regaddr v =
     [Wire (wire dm) (WBeginTransmission DBM_ADDR), Wire (wire dm) (WWrite regaddr),
      Wire (wire dm) (WWrite v), Wire (wire dm) WEndTransmission]"

section \<open>Vocabulary of the statements\<close>

text \<open>
  The calls of the blocks of the sketch as lists, and the values the branches of \<open>loop\<close>
  compute, as functions of the history \<open>h\<close> of calls before the block.
\<close>

definition reading :: "env \<Rightarrow> event list \<Rightarrow> uint8_t \<Rightarrow> uint8_t" where
  "reading e h regaddr = word_of_int (ret e (h @ read_calls dbmeter regaddr))"

definition displayStatus_calls :: "string \<Rightarrow> event list" where
  "displayStatus_calls status =
     [ScreenSetTextColor, ScreenClearDisplay, ScreenSetCursor 0 0, ScreenSetTextSize 1,
      ScreenPrint status, ScreenDisplay]"

definition displaySPL_calls :: "uint8_t \<Rightarrow> uint8_t \<Rightarrow> uint8_t \<Rightarrow> event list" where
  "displaySPL_calls db dbmin dbmax =
     [ScreenSetTextColor, ScreenClearDisplay, ScreenSetTextSize 2, ScreenSetCursor 0 0,
      ScreenPrintf ''Avg: %ddB'' [PInt (uint db)], ScreenSetCursor 0 25,
      ScreenPrintf ''Min: %ddB'' [PInt (uint dbmin)], ScreenSetCursor 0 50,
      ScreenPrintf ''Max: %ddB'' [PInt (uint dbmax)], ScreenDisplay]"

definition measure_calls :: "uint8_t \<Rightarrow> uint8_t \<Rightarrow> uint8_t \<Rightarrow> event list" where
  "measure_calls db dbmin dbmax =
     read_calls dbmeter DBM_REG_DECIBEL @ read_calls dbmeter DBM_REG_MIN
       @ read_calls dbmeter DBM_REG_MAX
       @ [SerialPrintf (''dB = %03d [MIN: %03d, MAX: %03d]'' @ LF)
            [PInt (uint db), PInt (uint dbmin), PInt (uint dbmax)]]
       @ displayStatus_calls ''Transmitting...''
       @ write_calls dbmeter DBM_REG_RESET 2"

definition pack_cell :: "env \<Rightarrow> WalterModemCellInformation \<Rightarrow> uint8_t list \<Rightarrow> uint8_t list" where
  "pack_cell e ci buf = buf
     [9 := ucast (drop_bit 8 (cc ci)), 10 := ucast (cc ci AND 0xFF),
      11 := ucast (drop_bit 8 (nc ci)), 12 := ucast (nc ci AND 0xFF),
      13 := ucast (drop_bit 8 (tac ci)), 14 := ucast (tac ci AND 0xFF),
      15 := ucast (drop_bit 24 (cid ci) AND 0xFF), 16 := ucast (drop_bit 16 (cid ci) AND 0xFF),
      17 := ucast (drop_bit 8 (cid ci) AND 0xFF), 18 := ucast (cid ci AND 0xFF),
      19 := float_to_uint8 e (rsrp ci * (-1))]"

definition cell_ok :: "env \<Rightarrow> event list \<Rightarrow> bool" where
  "cell_ok e h = (ret e (h @ [ModemGetCellInformation]) \<noteq> 0)"

definition cell_info :: "env \<Rightarrow> event list \<Rightarrow> WalterModemCellInformation" where
  "cell_info e h = cell_rsp e (h @ [ModemGetCellInformation])"

definition cell_calls :: "env \<Rightarrow> event list \<Rightarrow> event list" where
  "cell_calls e h =
     ModemGetCellInformation #
     (if cell_ok e h
      then [SerialPrintf ''Connected on band %u using operator %s (%u%02u)''
              [PInt (uint (band (cell_info e h))), PStr (netName (cell_info e h)),
               PInt (uint (cc (cell_info e h))), PInt (uint (nc (cell_info e h)))],
            SerialPrintf ('' and cell ID %u.'' @ CRLF) [PInt (uint (cid (cell_info e h)))],
            SerialPrintf (''Signal strength: RSRP: %.2f, RSRQ: %.2f.'' @ CRLF)
              [PFloat (rsrp (cell_info e h)), PFloat (rsrq (cell_info e h))]]
      else [SerialPrintln ''Could not request cell information''])"

definition cell_buf :: "env \<Rightarrow> event list \<Rightarrow> uint8_t list \<Rightarrow> uint8_t list" where
  "cell_buf e h buf = (if cell_ok e h then pack_cell e (cell_info e h) buf else buf)"

definition socket_ok :: "env \<Rightarrow> string \<Rightarrow> uint16_t \<Rightarrow> event list \<Rightarrow> bool" where
  "socket_ok e ip port h =
     (ret e (h @ [ModemCreateSocket]) \<noteq> 0 \<and>
      ret e (h @ [ModemCreateSocket, ModemConfigSocket]) \<noteq> 0 \<and>
      ret e (h @ [ModemCreateSocket, ModemConfigSocket, ModemConnectSocket ip port port]) \<noteq> 0)"

definition socket_calls :: "env \<Rightarrow> string \<Rightarrow> uint16_t \<Rightarrow> event list \<Rightarrow> event list" where
  "socket_calls e ip port h =
     (if ret e (h @ [ModemCreateSocket]) = 0
      then [ModemCreateSocket, SerialPrint (''Could not create a new socket'' @ CRLF)]
      else if ret e (h @ [ModemCreateSocket, ModemConfigSocket]) = 0
      then [ModemCreateSocket, ModemConfigSocket,
            SerialPrint (''Could not configure the socket'' @ CRLF)]
      else if ret e (h @ [ModemCreateSocket, ModemConfigSocket,
                          ModemConnectSocket ip port port]) \<noteq> 0
      then [ModemCreateSocket, ModemConfigSocket, ModemConnectSocket ip port port,
            SerialPrintf (''Connected to UDP server %s:%d'' @ CRLF) [PStr ip, PInt (uint port)]]
      else [ModemCreateSocket, ModemConfigSocket, ModemConnectSocket ip port port,
            SerialPrint (''Could not connect UDP socket'' @ CRLF)])"

definition rat_calls :: "env \<Rightarrow> event list \<Rightarrow> event list" where
  "rat_calls e h =
     ModemGetRAT #
     (if ret e (h @ [ModemGetRAT]) \<noteq> 0
      then (if rat_rsp e (h @ [ModemGetRAT]) \<noteq> RADIO_TECHNOLOGY
            then [ModemSetRAT RADIO_TECHNOLOGY, SerialPrintln ''Switched modem radio technology'']
            else [])
      else [SerialPrintln ''Could not retrieve radio access technology''])"

text \<open>
  The history of the boot sequence up to and including the call of \<open>modem.begin\<close>
  (\<open>modem_h0\<close>), of \<open>createPDPContext\<close> (\<open>modem_h2\<close>), of \<open>setOpState\<close> (\<open>modem_h3\<close>)
  and of \<open>setNetworkSelectionMode\<close> (\<open>modem_h4\<close>), from the state \<open>s\<close> in which the
  sensor and the MAC address have been read.
\<close>

definition modem_h0 :: "state \<Rightarrow> event list" where
  "modem_h0 s = trace s @ displayStatus_calls ''Starting modem...'' @ [ModemBegin]"

definition modem_h2 :: "env \<Rightarrow> state \<Rightarrow> event list" where
  "modem_h2 e s =
     modem_h0 s @ [SerialPrint (''Modem initialization OK'' @ CRLF)]
       @ rat_calls e (modem_h0 s @ [SerialPrint (''Modem initialization OK'' @ CRLF)])
       @ [ModemCreatePDPContext []]"

definition modem_h3 :: "env \<Rightarrow> state \<Rightarrow> event list" where
  "modem_h3 e s = modem_h2 e s @ displayStatus_calls ''Connecting...'' @ [ModemSetOpStateFull]"

definition modem_h4 :: "env \<Rightarrow> state \<Rightarrow> event list" where
  "modem_h4 e s = modem_h3 e s @ [ModemSetNetworkSelectionModeAutomatic]"

definition loop_h1 :: "env \<Rightarrow> event list \<Rightarrow> event list" where
  "loop_h1 e h =
     h @ measure_calls (reading e h DBM_REG_DECIBEL)
           (reading e (h @ read_calls dbmeter DBM_REG_DECIBEL) DBM_REG_MIN)
           (reading e (h @ read_calls dbmeter DBM_REG_DECIBEL @ read_calls dbmeter DBM_REG_MIN)
              DBM_REG_MAX)"

definition loop_buf1 :: "env \<Rightarrow> event list \<Rightarrow> uint8_t list \<Rightarrow> uint8_t list" where
  "loop_buf1 e h buf =
     buf[6 := reading e h DBM_REG_DECIBEL,
         7 := reading e (h @ read_calls dbmeter DBM_REG_DECIBEL) DBM_REG_MIN,
         8 := reading e (h @ read_calls dbmeter DBM_REG_DECIBEL @ read_calls dbmeter DBM_REG_MIN)
                DBM_REG_MAX]"

text \<open>
  Sample data and environments, for evaluating the model on concrete runs. In \<open>env_of r\<close>
  the calls return what \<open>r\<close> says, the modem is on LTE-M and registered at once, the cell
  information is \<open>sample_cell\<close> and the MAC address is A0:A1:A2:A3:A4:A5.
\<close>

definition sample_cell :: WalterModemCellInformation where
  "sample_cell =
     \<lparr>band = 20, netName = ''Walter'', cc = 206, nc = 1, tac = 0x1234, cid = 0x01020304,
      rsrp = - 195 / 2, rsrq = - 11\<rparr>"

definition env_of :: "(event list \<Rightarrow> int) \<Rightarrow> env" where
  "env_of r =
     \<lparr>ret = r, rat_rsp = (\<lambda>h. WALTER_MODEM_RAT_LTEM),
      regstate_rsp = (\<lambda>h. WALTER_MODEM_NETWORK_REG_REGISTERED_HOME),
      cell_rsp = (\<lambda>h. sample_cell), mac_rsp = (\<lambda>h i. 0xA0 + of_nat i),
      float_ub = (\<lambda>x. 0)\<rparr>"

text \<open>
  Answers of a sensor whose register \<open>r\<close> holds \<open>0x40 + r\<close>: a bus read returns the
  register addressed by the write four calls earlier; every other call returns 1.
\<close>

definition sensor_ret :: "event list \<Rightarrow> int" where
  "sensor_ret h =
     (case rev h of
        Wire b WRead # d # rq # en # Wire b' (WWrite r) # rest \<Rightarrow> 0x40 + uint r
      | _ \<Rightarrow> 1)"

text \<open>
  Reading a trace. \<open>is_log\<close> marks the serial output; \<open>restart_follows\<close> says that what
  remains of a trace is serial output, then the 1000 ms delay, then the restart, and
  nothing else. \<open>failure_op\<close> marks the operations that report failure through their
  return value: display initialisation, modem initialisation, the RAT query and switch, PDP
  context creation, the two steps of the LTE attach, the cell-information query, socket
  creation, configuration and connection, the packet send and the socket close;
  \<open>restart_op\<close> marks those among them whose result the sketch answers with a restart.
\<close>

definition is_log :: "event \<Rightarrow> bool" where
  "is_log ev =
     (case ev of SerialPrint x \<Rightarrow> True | SerialPrintln x \<Rightarrow> True | SerialPrintf x y \<Rightarrow> True
      | _ \<Rightarrow> False)"

definition restart_follows :: "event list \<Rightarrow> bool" where
  "restart_follows evs = (dropWhile is_log evs = [Delay 1000, EspRestart])"

definition failure_op :: "event \<Rightarrow> bool" where
  "failure_op ev =
     (case ev of
        ScreenBegin a \<Rightarrow> True
      | ModemBegin \<Rightarrow> True
      | ModemGetRAT \<Rightarrow> True
      | ModemSetRAT r \<Rightarrow> True
      | ModemCreatePDPContext apn \<Rightarrow> True
      | ModemSetOpStateFull \<Rightarrow> True
      | ModemSetNetworkSelectionModeAutomatic \<Rightarrow> True
      | ModemGetCellInformation \<Rightarrow> True
      | ModemCreateSocket \<Rightarrow> True
      | ModemConfigSocket \<Rightarrow> True
      | ModemConnectSocket ip p q \<Rightarrow> True
      | ModemSocketSend b n \<Rightarrow> True
      | ModemCloseSocket \<Rightarrow> True
      | _ \<Rightarrow> False)"

definition restart_op :: "event \<Rightarrow> bool" where
  "restart_op ev =
     (case ev of
        ModemBegin \<Rightarrow> True
      | ModemCreatePDPContext apn \<Rightarrow> True
      | ModemSetOpStateFull \<Rightarrow> True
      | ModemSetNetworkSelectionModeAutomatic \<Rightarrow> True
      | ModemCreateSocket \<Rightarrow> True
      | ModemConfigSocket \<Rightarrow> True
      | ModemConnectSocket ip p q \<Rightarrow> True
      | ModemSocketSend b n \<Rightarrow> True
      | ModemCloseSocket \<Rightarrow> True
      | _ \<Rightarrow> False)"

text \<open>
  \<open>failures_restart P e h evs\<close>: in the calls \<open>evs\<close> made after the history \<open>h\<close>, the
  first operation marked by \<open>P\<close> that reports failure (returns 0 in the environment \<open>e\<close>)
  is followed by logging, the delay and the restart, and by nothing more.
  \<open>no_failure P e h evs\<close>: no operation marked by \<open>P\<close> reports failure in \<open>evs\<close>.
\<close>

fun failures_restart :: "(event \<Rightarrow> bool) \<Rightarrow> env \<Rightarrow> event list \<Rightarrow> event list \<Rightarrow> bool" where
  "failures_restart P e h [] = True"
| "failures_restart P e h (ev # evs) =
     (if P ev \<and> ret e (h @ [ev]) = 0 then restart_follows evs
      else failures_restart P e (h @ [ev]) evs)"

fun no_failure :: "(event \<Rightarrow> bool) \<Rightarrow> env \<Rightarrow> event list \<Rightarrow> event list \<Rightarrow> bool" where
  "no_failure P e h [] = True"
| "no_failure P e h (ev # evs) =
     (\<not> (P ev \<and> ret e (h @ [ev]) = 0) \<and> no_failure P e (h @ [ev]) evs)"

text \<open>
  For the proofs: a list of calls is \<open>quiet\<close> when it holds no operation of \<open>restart_op\<close>
  and no restart; \<open>good\<close> is the shape of the calls of a function of the sketch, by its
  outcome.
\<close>

definition quiet :: "event list \<Rightarrow> bool" where
  "quiet evs = (\<forall>ev\<in>set evs. \<not> restart_op ev \<and> ev \<noteq> EspRestart)"

definition good :: "env \<Rightarrow> event list \<Rightarrow> event list \<Rightarrow> outcome \<Rightarrow> bool" where
  "good e h evs out =
     (case out of
        Returned \<Rightarrow> no_failure restart_op e h evs \<and> EspRestart \<notin> set evs
      | Restarted \<Rightarrow>
          (\<exists>a ev logs. evs = a @ ev # logs @ [Delay 1000, EspRestart] \<and>
             no_failure restart_op e h a \<and> restart_op ev \<and> ret e (h @ a @ [ev]) = 0 \<and>
             (\<forall>l\<in>set logs. is_log l)))"

text \<open>
  The state right after the MAC address was read, and four environments: one in which
  every cell-information query fails, one in which the send fails, one in which the first
  display initialisation and the RAT query fail, one in which socket creation fails; every
  other call succeeds.
\<close>

definition sample_state :: state where
  "sample_state = esp_read_mac (env_of sensor_ret) boot_state"

text \<open>\<open>env_failing P\<close>: the calls marked by \<open>P\<close> return 0, every other call returns 1.\<close>

definition env_failing :: "(event \<Rightarrow> bool) \<Rightarrow> env" where
  "env_failing P = env_of (\<lambda>h. if P (last h) then 0 else 1)"

definition env_cell_fails :: env where
  "env_cell_fails = env_of (\<lambda>h. if last h = ModemGetCellInformation then 0 else 1)"

definition env_send_fails :: env where
  "env_send_fails = env_of (\<lambda>h. case last h of ModemSocketSend b n \<Rightarrow> 0 | _ \<Rightarrow> 1)"

definition env_setup_soft :: env where
  "env_setup_soft =
     env_of (\<lambda>h. if last h = ModemGetRAT \<or> (last h = ScreenBegin SCREEN_ADDRESS \<and> length h = 12)
                  then 0 else 1)"

definition env_create_fails :: env where
  "env_create_fails = env_of (\<lambda>h. if last h = ModemCreateSocket then 0 else 1)"

section \<open>Properties of the driver\<close>

lemma readRegister_eq:
  "readRegister e dm regaddr s =
     (word_of_int (ret e (trace s @ read_calls dm regaddr)),
      s\<lparr>trace := trace s @ read_calls dm regaddr\<rparr>)"
  by (simp add: readRegister_def exec_def call_def read_calls_def)

lemma writeRegister_eq:
  "writeRegister e dm regaddr v s = s\<lparr>trace := trace s @ write_calls dm regaddr v\<rparr>"
  by (simp add: writeRegister_def exec_def call_def write_calls_def)

subsection \<open>Bytes of a word\<close>

lemma unat_and_FF: "unat ((w::'a::len word) AND 0xFF) = unat w mod 256"
proof -
  have m8: "(0xFF::'a word) = mask 8" by (simp add: mask_eq_exp_minus_1)
  have "unat (w AND mask 8) = take_bit 8 (unat w)"
    by (simp only: unsigned_take_bit_eq flip: take_bit_eq_mask)
  then show ?thesis unfolding m8 by (simp add: take_bit_eq_mod)
qed

lemma unat_ucast_byte: "unat (ucast (w::'a::len word) :: uint8_t) = unat w mod 256"
  by (simp add: unsigned_ucast_eq take_bit_eq_mod)

lemma unat_drop8: "unat (drop_bit 8 (w::'a::len word)) = unat w div 256"
  by (simp only: unat_drop_bit_eq) (simp add: drop_bit_eq_div)

lemma unat_drop16: "unat (drop_bit 16 (w::'a::len word)) = unat w div 65536"
  by (simp only: unat_drop_bit_eq) (simp add: drop_bit_eq_div)

lemma unat_drop24: "unat (drop_bit 24 (w::'a::len word)) = unat w div 16777216"
  by (simp only: unat_drop_bit_eq) (simp add: drop_bit_eq_div)

lemmas byte_unat = unat_ucast_byte unat_and_FF unat_drop8 unat_drop16 unat_drop24 mod_mod_trivial

lemma bytes2: "(n::nat) < 65536 \<Longrightarrow> n div 256 mod 256 * 256 + n mod 256 = n"
  by simp

lemma bytes4:
  assumes "(n::nat) < 4294967296"
  shows "n div 16777216 mod 256 * 16777216 + n div 65536 mod 256 * 65536
           + n div 256 mod 256 * 256 + n mod 256 = n"
proof -
  define a where "a = n div 256"
  define b where "b = a div 256"
  define c where "c = b div 256"
  have c: "c < 256" using assms unfolding c_def b_def a_def by simp
  have n: "n = a * 256 + n mod 256" unfolding a_def by simp
  have a: "a = b * 256 + a mod 256" unfolding b_def by simp
  have b: "b = c * 256 + b mod 256" unfolding c_def by simp
  have e2: "n div 65536 = b" unfolding b_def a_def by (simp add: div_mult2_eq [symmetric])
  have e3: "n div 16777216 = c" unfolding c_def b_def a_def by (simp add: div_mult2_eq [symmetric])
  have "c mod 256 * 16777216 + b mod 256 * 65536 + a mod 256 * 256 + n mod 256 = n"
    using c n a b by simp
  then show ?thesis unfolding e2 e3 a_def [symmetric] .
qed

lemma split16_and:
  "unat (ucast (drop_bit 8 w AND 0xFF) :: uint8_t) * 256 + unat (ucast (w AND 0xFF) :: uint8_t)
     = unat (w::uint16_t)"
proof -
  have "unat w < 65536" using unsigned_less [of w, where 'a=nat] by simp
  then show ?thesis
    by (simp only: byte_unat bytes2)
qed

lemma split16:
  "unat (ucast (drop_bit 8 w) :: uint8_t) * 256 + unat (ucast (w AND 0xFF) :: uint8_t)
     = unat (w::uint16_t)"
proof -
  have "unat w < 65536" using unsigned_less [of w, where 'a=nat] by simp
  then show ?thesis
    by (simp only: byte_unat bytes2)
qed

lemma split32:
  "unat (ucast (drop_bit 24 w AND 0xFF) :: uint8_t) * 16777216
     + unat (ucast (drop_bit 16 w AND 0xFF) :: uint8_t) * 65536
     + unat (ucast (drop_bit 8 w AND 0xFF) :: uint8_t) * 256
     + unat (ucast (w AND 0xFF) :: uint8_t) = unat (w::uint32_t)"
proof -
  have "unat w < 4294967296" using unsigned_less [of w, where 'a=nat] by simp
  then show ?thesis
    by (simp only: byte_unat bytes4)
qed

lemma exec_eq: "exec e ev s = s\<lparr>trace := trace s @ [ev]\<rparr>"
  by (simp add: exec_def call_def)

text \<open>
  C3: every register read of the driver makes exactly these bus calls, in this order and
  whatever the bus answers: begin a transmission to \<open>DBM_ADDR\<close>, write the register
  address byte, end the transmission, request one byte from \<open>DBM_ADDR\<close>, delay, read one
  byte. No answer of the bus is consulted on the way, so nothing is retried or checked.
  \<open>getVersion\<close>, \<open>readDecibel\<close>, \<open>readMinDecibel\<close> and \<open>readMaxDecibel\<close> make this
  sequence once, \<open>getID\<close> four times in a row.
\<close>

theorem C3_readRegister_bus_sequence:
  "trace (snd (readRegister e dm regaddr s)) =
     trace s @ [Wire (wire dm) (WBeginTransmission DBM_ADDR), Wire (wire dm) (WWrite regaddr),
                Wire (wire dm) WEndTransmission, Wire (wire dm) (WRequestFrom DBM_ADDR 1),
                Delay 10, Wire (wire dm) WRead]
   \<and> read_calls dm regaddr =
       [Wire (wire dm) (WBeginTransmission DBM_ADDR), Wire (wire dm) (WWrite regaddr),
        Wire (wire dm) WEndTransmission, Wire (wire dm) (WRequestFrom DBM_ADDR 1),
        Delay 10, Wire (wire dm) WRead]
   \<and> trace (snd (getVersion e dm s)) = trace s @ read_calls dm DBM_REG_VERSION
   \<and> trace (snd (readDecibel e dm s)) = trace s @ read_calls dm DBM_REG_DECIBEL
   \<and> trace (snd (readMinDecibel e dm s)) = trace s @ read_calls dm DBM_REG_MIN
   \<and> trace (snd (readMaxDecibel e dm s)) = trace s @ read_calls dm DBM_REG_MAX
   \<and> trace (snd (getID e dm ident s)) =
       trace s @ read_calls dm DBM_REG_ID3 @ read_calls dm DBM_REG_ID2
         @ read_calls dm DBM_REG_ID1 @ read_calls dm DBM_REG_ID0"
  by (simp add: readRegister_eq getVersion_def readDecibel_def readMinDecibel_def
      readMaxDecibel_def getID_def)
     (simp add: read_calls_def)

text \<open>
  C5: each read operation returns the byte that the bus read delivers after the device
  was addressed with the operation's register: \<open>getVersion\<close> 0x00, \<open>readDecibel\<close> 0x0A,
  \<open>readMinDecibel\<close> 0x0B, \<open>readMaxDecibel\<close> 0x0C; \<open>getID\<close> stores into cells 0 to 3 of
  the caller's array the bytes read for registers 0x01, 0x02, 0x03, 0x04, in that order,
  and leaves the rest of the array as it was.
\<close>

theorem C5_reads_return_register_byte:
  "fst (getVersion e dm s) = word_of_int (ret e (trace s @ read_calls dm 0x00))
   \<and> fst (readDecibel e dm s) = word_of_int (ret e (trace s @ read_calls dm 0x0A))
   \<and> fst (readMinDecibel e dm s) = word_of_int (ret e (trace s @ read_calls dm 0x0B))
   \<and> fst (readMaxDecibel e dm s) = word_of_int (ret e (trace s @ read_calls dm 0x0C))
   \<and> fst (getID e dm ident s) =
       ident[0 := word_of_int (ret e (trace s @ read_calls dm 0x01)),
             1 := word_of_int (ret e (trace s @ read_calls dm 0x01 @ read_calls dm 0x02)),
             2 := word_of_int (ret e (trace s @ read_calls dm 0x01 @ read_calls dm 0x02
                                       @ read_calls dm 0x03)),
             3 := word_of_int (ret e (trace s @ read_calls dm 0x01 @ read_calls dm 0x02
                                       @ read_calls dm 0x03 @ read_calls dm 0x04))]
   \<and> (4 \<le> length ident \<longrightarrow>
        take 4 (fst (getID e dm ident s)) =
          [word_of_int (ret e (trace s @ read_calls dm 0x01)),
           word_of_int (ret e (trace s @ read_calls dm 0x01 @ read_calls dm 0x02)),
           word_of_int (ret e (trace s @ read_calls dm 0x01 @ read_calls dm 0x02
                                 @ read_calls dm 0x03)),
           word_of_int (ret e (trace s @ read_calls dm 0x01 @ read_calls dm 0x02
                                 @ read_calls dm 0x03 @ read_calls dm 0x04))]
        \<and> drop 4 (fst (getID e dm ident s)) = drop 4 ident)"
proof -
  have regs: "DBM_REG_VERSION = 0x00" "DBM_REG_DECIBEL = 0x0A" "DBM_REG_MIN = 0x0B"
    "DBM_REG_MAX = 0x0C" "DBM_REG_ID3 = 0x01" "DBM_REG_ID2 = 0x02" "DBM_REG_ID1 = 0x03"
    "DBM_REG_ID0 = 0x04"
    by (simp_all add: DBM_REG_VERSION_def DBM_REG_DECIBEL_def DBM_REG_MIN_def DBM_REG_MAX_def
        DBM_REG_ID3_def DBM_REG_ID2_def DBM_REG_ID1_def DBM_REG_ID0_def)
  have id: "fst (getID e dm ident s) =
       ident[0 := word_of_int (ret e (trace s @ read_calls dm 0x01)),
             1 := word_of_int (ret e (trace s @ read_calls dm 0x01 @ read_calls dm 0x02)),
             2 := word_of_int (ret e (trace s @ read_calls dm 0x01 @ read_calls dm 0x02
                                       @ read_calls dm 0x03)),
             3 := word_of_int (ret e (trace s @ read_calls dm 0x01 @ read_calls dm 0x02
                                       @ read_calls dm 0x03 @ read_calls dm 0x04))]"
    by (simp add: getID_def readRegister_eq regs)
  have tk: "4 \<le> length xs \<Longrightarrow> take 4 (xs[0 := a, 1 := b, 2 := c, 3 := d]) = [a, b, c, d]
      \<and> drop 4 (xs[0 := a, 1 := b, 2 := c, 3 := d]) = drop 4 xs" for xs :: "uint8_t list" and a b c d
  proof -
    assume l: "4 \<le> length xs"
    then obtain x0 x1 x2 x3 ys where "xs = x0 # x1 # x2 # x3 # ys"
      by (cases xs; cases "tl xs"; cases "tl (tl xs)"; cases "tl (tl (tl xs))") auto
    then show ?thesis by simp
  qed
  show ?thesis
    unfolding id using tk [of ident]
    by (simp add: getVersion_def readDecibel_def readMinDecibel_def readMaxDecibel_def
        readRegister_eq regs)
qed

theorem C5_reads_return_register_byte_witness:
  "4 \<le> length [0, 0, 0, 0 :: uint8_t]
   \<and> fst (getID (env_of sensor_ret) dbmeter [0, 0, 0, 0] boot_state) = [0x41, 0x42, 0x43, 0x44]
   \<and> fst (readDecibel (env_of sensor_ret) dbmeter boot_state) = 0x4A"
  using C5_reads_return_register_byte [of "env_of sensor_ret" dbmeter boot_state "[0, 0, 0, 0]"]
  by (simp add: env_of_def sensor_ret_def boot_state_def read_calls_def dbmeter_def
      DecibelMeter_new_def DBM_ADDR_def)

text \<open>
  C6: for every 16-bit interval, \<open>setAveragingInterval\<close> makes exactly two register
  writes, the high byte to \<open>DBM_REG_TAVG_HIGH\<close> (0x07) and then the low byte to
  \<open>DBM_REG_TAVG_LOW\<close> (0x08), and the two bytes written put together give the interval
  back: high byte times 256 plus low byte.
\<close>

theorem C6_setAveragingInterval_bytes:
  "trace (setAveragingInterval e dm intervalMs s) =
     trace s @ [Wire (wire dm) (WBeginTransmission DBM_ADDR), Wire (wire dm) (WWrite 0x07),
                Wire (wire dm) (WWrite (ucast (drop_bit 8 intervalMs AND 0xFF))),
                Wire (wire dm) WEndTransmission,
                Wire (wire dm) (WBeginTransmission DBM_ADDR), Wire (wire dm) (WWrite 0x08),
                Wire (wire dm) (WWrite (ucast (intervalMs AND 0xFF))),
                Wire (wire dm) WEndTransmission]
   \<and> DBM_REG_TAVG_HIGH = 0x07 \<and> DBM_REG_TAVG_LOW = 0x08
   \<and> unat (ucast (drop_bit 8 intervalMs AND 0xFF) :: uint8_t) * 256
       + unat (ucast (intervalMs AND 0xFF) :: uint8_t) = unat intervalMs"
proof -
  have "trace (setAveragingInterval e dm intervalMs s) =
     trace s @ write_calls dm 0x07 (ucast (drop_bit 8 intervalMs AND 0xFF))
       @ write_calls dm 0x08 (ucast (intervalMs AND 0xFF))"
    by (simp only: setAveragingInterval_def Let_def writeRegister_eq DBM_REG_TAVG_HIGH_def
        DBM_REG_TAVG_LOW_def) simp
  then show ?thesis
    by (simp only: split16_and write_calls_def DBM_REG_TAVG_HIGH_def DBM_REG_TAVG_LOW_def) simp
qed

text \<open>
  C7: \<open>resetMinMax\<close> makes exactly one register write, of the value 2 (binary 00000010,
  the clear-MIN/MAX bit alone) to \<open>DBM_REG_RESET\<close> (0x09); it reads nothing and changes
  nothing else of the state.
\<close>

theorem C7_resetMinMax_single_write:
  "trace (resetMinMax e dm s) =
     trace s @ [Wire (wire dm) (WBeginTransmission DBM_ADDR), Wire (wire dm) (WWrite 0x09),
                Wire (wire dm) (WWrite 2), Wire (wire dm) WEndTransmission]
   \<and> DBM_REG_RESET = 0x09
   \<and> Wire (wire dm) WRead \<notin> set (new_calls s (resetMinMax e dm s))
   \<and> dataBuf (resetMinMax e dm s) = dataBuf s \<and> rsp (resetMinMax e dm s) = rsp s"
  by (simp add: resetMinMax_def writeRegister_eq write_calls_def DBM_REG_RESET_def new_calls_def)

text \<open>
  C10: \<open>begin\<close> returns true for every instance, every pin and frequency configuration
  and every answer of the bus: the result of the bus initialisation is discarded, so the
  caller cannot see from the result whether it worked.
\<close>

theorem C10_begin_always_true:
  "fst (begin_dm e dm s) = True
   \<and> fst (begin_dm e (DecibelMeter_new a b f) s) = True
   \<and> trace (snd (begin_dm e dm s)) =
       trace s @ [Wire (wire dm) (WBegin (sda dm) (scl dm) (frequency dm))]"
  by (simp add: begin_dm_def exec_eq)

section \<open>The blocks of the sketch, call by call\<close>

lemma displayStatus_eq:
  "displayStatus e st s = s\<lparr>trace := trace s @ displayStatus_calls st\<rparr>"
  by (simp add: displayStatus_def exec_eq displayStatus_calls_def)

lemma displaySPL_eq:
  "displaySPL e a b c s = s\<lparr>trace := trace s @ displaySPL_calls a b c\<rparr>"
  by (simp add: displaySPL_def exec_eq displaySPL_calls_def)

lemma loop_measure_eq:
  "loop_measure e s =
     (let db = reading e (trace s) DBM_REG_DECIBEL;
          dbmin = reading e (trace s @ read_calls dbmeter DBM_REG_DECIBEL) DBM_REG_MIN;
          dbmax = reading e (trace s @ read_calls dbmeter DBM_REG_DECIBEL
                                @ read_calls dbmeter DBM_REG_MIN) DBM_REG_MAX
      in (db, dbmin, dbmax,
          s\<lparr>trace := trace s @ measure_calls db dbmin dbmax,
            dataBuf := (dataBuf s)[6 := db, 7 := dbmin, 8 := dbmax]\<rparr>))"
  by (simp add: loop_measure_def readDecibel_def readMinDecibel_def readMaxDecibel_def
      readRegister_eq exec_eq displayStatus_eq resetMinMax_def writeRegister_eq
      measure_calls_def reading_def Let_def)

lemma cell_block_eq:
  "cell_block e s =
     s\<lparr>trace := trace s @ cell_calls e (trace s),
       rsp := cell_info e (trace s),
       dataBuf := cell_buf e (trace s) (dataBuf s)\<rparr>"
  by (simp add: cell_block_def getCellInformation_def call_def exec_eq Let_def
      cell_calls_def cell_ok_def cell_info_def cell_buf_def pack_cell_def)

lemma socketConnect_eq:
  "socketConnect e ip port s =
     (socket_ok e ip port (trace s), s\<lparr>trace := trace s @ socket_calls e ip port (trace s)\<rparr>)"
  by (simp add: socketConnect_def call_def exec_eq Let_def socket_ok_def socket_calls_def)

lemma loop_eq:
  "loop e s =
     (let db = reading e (trace s) DBM_REG_DECIBEL;
          dbmin = reading e (trace s @ read_calls dbmeter DBM_REG_DECIBEL) DBM_REG_MIN;
          dbmax = reading e (trace s @ read_calls dbmeter DBM_REG_DECIBEL
                                @ read_calls dbmeter DBM_REG_MIN) DBM_REG_MAX;
          h1 = loop_h1 e (trace s);
          buf2 = cell_buf e h1 (loop_buf1 e (trace s) (dataBuf s));
          h2 = h1 @ cell_calls e h1;
          h3 = h2 @ socket_calls e SERV_ADDR SERV_PORT h2;
          h4 = h3 @ [ModemSocketSend buf2 PACKET_SIZE, Delay 5000];
          h5 = h4 @ cell_calls e h4
      in
      if \<not> socket_ok e SERV_ADDR SERV_PORT h2
      then (Restarted,
            s\<lparr>trace := h3 @ [SerialPrint (''Could not connect to UDP server socket'' @ CRLF),
                               Delay 1000, EspRestart],
              dataBuf := buf2, rsp := cell_info e h1\<rparr>)
      else if ret e (h3 @ [ModemSocketSend buf2 PACKET_SIZE]) = 0
      then (Restarted,
            s\<lparr>trace := h3 @ [ModemSocketSend buf2 PACKET_SIZE,
                               SerialPrint (''Could not transmit data'' @ CRLF),
                               Delay 1000, EspRestart],
              dataBuf := buf2, rsp := cell_info e h1\<rparr>)
      else if ret e (h5 @ [ModemCloseSocket]) = 0
      then (Restarted,
            s\<lparr>trace := h5 @ [ModemCloseSocket,
                               SerialPrint (''Could not close the socket'' @ CRLF),
                               Delay 1000, EspRestart],
              dataBuf := cell_buf e h4 buf2, rsp := cell_info e h4\<rparr>)
      else (Returned,
            s\<lparr>trace := h5 @ [ModemCloseSocket] @ displaySPL_calls db dbmin dbmax @ [Delay 60000],
              dataBuf := cell_buf e h4 buf2, rsp := cell_info e h4\<rparr>))"
  by (simp add: loop_def loop_measure_eq cell_block_eq socketConnect_eq call_def exec_eq
      displaySPL_eq Let_def loop_h1_def loop_buf1_def)

lemma sent_append: "sent (a @ b) = sent a @ sent b"
  by (induction a rule: sent.induct) simp_all

lemma sent_read_calls: "sent (read_calls dm r) = []"
  by (simp add: read_calls_def)

lemma sent_write_calls: "sent (write_calls dm r v) = []"
  by (simp add: write_calls_def)

lemma sent_measure_calls: "sent (measure_calls a b c) = []"
  by (simp add: measure_calls_def sent_append sent_read_calls sent_write_calls displayStatus_calls_def)

lemma sent_cell_calls: "sent (cell_calls e h) = []"
  by (simp add: cell_calls_def)

lemma sent_socket_calls: "sent (socket_calls e ip port h) = []"
  by (simp add: socket_calls_def)

lemma sent_displaySPL_calls: "sent (displaySPL_calls a b c) = []"
  by (simp add: displaySPL_calls_def)

lemmas sent_simps = sent_append sent_measure_calls sent_cell_calls sent_socket_calls
  sent_displaySPL_calls

lemma new_calls_append: "trace s' = trace s @ evs \<Longrightarrow> new_calls s s' = evs"
  by (simp add: new_calls_def)

lemma length_pack_cell: "length (pack_cell e ci buf) = length buf"
  by (simp add: pack_cell_def)

lemma length_cell_buf: "length (cell_buf e h buf) = length buf"
  by (simp add: cell_buf_def length_pack_cell)

lemma length_loop_buf1: "length (loop_buf1 e h buf) = length buf"
  by (simp add: loop_buf1_def)

lemma take_pack_cell: "n \<le> 9 \<Longrightarrow> take n (pack_cell e ci buf) = take n buf"
  by (simp add: pack_cell_def)

lemma take_cell_buf: "n \<le> 9 \<Longrightarrow> take n (cell_buf e h buf) = take n buf"
  by (simp add: cell_buf_def take_pack_cell)

lemma take_loop_buf1: "n \<le> 6 \<Longrightarrow> take n (loop_buf1 e h buf) = take n buf"
  by (simp add: loop_buf1_def)

lemma loop_trace_prefix: "\<exists>evs. trace (snd (loop e s)) = trace s @ evs"
  by (simp add: loop_eq Let_def loop_h1_def)

lemma loop_sent:
  "sent (new_calls s (snd (loop e s))) =
     (if socket_ok e SERV_ADDR SERV_PORT (loop_h1 e (trace s) @ cell_calls e (loop_h1 e (trace s)))
      then [(cell_buf e (loop_h1 e (trace s)) (loop_buf1 e (trace s) (dataBuf s)), PACKET_SIZE)]
      else [])"
  by (simp add: loop_eq Let_def loop_h1_def new_calls_def sent_simps)

lemma loop_length: "length (dataBuf (snd (loop e s))) = length (dataBuf s)"
  by (simp add: loop_eq Let_def length_cell_buf length_loop_buf1)

lemma loop_take6: "take 6 (dataBuf (snd (loop e s))) = take 6 (dataBuf s)"
  by (simp add: loop_eq Let_def take_cell_buf take_loop_buf1)

section \<open>Packets of one and of many iterations\<close>

lemma new_calls_trans:
  "trace s' = trace s @ a \<Longrightarrow> trace s'' = trace s' @ b \<Longrightarrow>
   new_calls s s'' = new_calls s s' @ new_calls s' s''"
  by (simp add: new_calls_def)

lemma loop_packets:
  "(b, n) \<in> set (sent (new_calls s (snd (loop e s)))) \<Longrightarrow>
   n = PACKET_SIZE \<and> length b = length (dataBuf s) \<and> take 6 b = take 6 (dataBuf s)"
  by (simp add: loop_sent length_cell_buf length_loop_buf1 take_cell_buf take_loop_buf1
      split: if_splits)

lemma run_trace_prefix: "\<exists>evs. trace (snd (run k e s)) = trace s @ evs"
proof (induction k arbitrary: s)
  case 0
  show ?case by simp
next
  case (Suc k)
  obtain out s1 where l: "loop e s = (out, s1)" by (cases "loop e s")
  obtain a where a: "trace s1 = trace s @ a"
    using loop_trace_prefix [of e s] l by auto
  show ?case
  proof (cases out)
    case Returned
    obtain b where "trace (snd (run k e s1)) = trace s1 @ b" using Suc.IH by blast
    then show ?thesis using l a Returned by simp
  next
    case Restarted
    then show ?thesis using l a by simp
  qed
qed

lemma run_frame:
  "length (dataBuf (snd (run k e s))) = length (dataBuf s) \<and>
   take 6 (dataBuf (snd (run k e s))) = take 6 (dataBuf s)"
proof (induction k arbitrary: s)
  case 0
  show ?case by simp
next
  case (Suc k)
  obtain out s1 where l: "loop e s = (out, s1)" by (cases "loop e s")
  have f: "length (dataBuf s1) = length (dataBuf s)" "take 6 (dataBuf s1) = take 6 (dataBuf s)"
    using loop_length [of e s] loop_take6 [of e s] l by simp_all
  show ?case
    using Suc.IH [of s1] l f by (cases out) simp_all
qed

lemma run_packets:
  "(b, n) \<in> set (sent (new_calls s (snd (run k e s)))) \<Longrightarrow>
   n = PACKET_SIZE \<and> length b = length (dataBuf s) \<and> take 6 b = take 6 (dataBuf s)"
proof (induction k arbitrary: s)
  case 0
  then show ?case by (simp add: new_calls_def)
next
  case (Suc k)
  obtain out s1 where l: "loop e s = (out, s1)" by (cases "loop e s")
  obtain a where a: "trace s1 = trace s @ a"
    using loop_trace_prefix [of e s] l by auto
  have f: "length (dataBuf s1) = length (dataBuf s)" "take 6 (dataBuf s1) = take 6 (dataBuf s)"
    using loop_length [of e s] loop_take6 [of e s] l by simp_all
  have first: "(b, n) \<in> set (sent (new_calls s s1)) \<Longrightarrow> ?case"
    using loop_packets [of b n s e] l by simp
  show ?case
  proof (cases out)
    case Restarted
    then show ?thesis using Suc.prems l first by simp
  next
    case Returned
    obtain c where c: "trace (snd (run k e s1)) = trace s1 @ c"
      using run_trace_prefix by blast
    have "new_calls s (snd (run k e s1)) = new_calls s s1 @ new_calls s1 (snd (run k e s1))"
      by (rule new_calls_trans [OF a c])
    then have "(b, n) \<in> set (sent (new_calls s s1)) \<or>
        (b, n) \<in> set (sent (new_calls s1 (snd (run k e s1))))"
      using Suc.prems l Returned by (simp add: sent_append)
    then show ?thesis using first Suc.IH [of s1] f by auto
  qed
qed

lemma sample_state_eq:
  "sample_state = \<lparr>trace = [EspReadMac],
     dataBuf = [0xA0, 0xA1, 0xA2, 0xA3, 0xA4, 0xA5, 0, 0, 0, 0, 0, 0, 0, 0, 0, 0, 0, 0, 0, 0],
     rsp = \<lparr>band = 0, netName = [], cc = 0, nc = 0, tac = 0, cid = 0, rsrp = 0, rsrq = 0\<rparr>\<rparr>"
  by (simp add: sample_state_def esp_read_mac_def exec_eq boot_state_def env_of_def PACKET_SIZE_def
      numeral_eq_Suc)

lemmas eval_defs = reading_def read_calls_def write_calls_def dbmeter_def DecibelMeter_new_def
  env_of_def sensor_ret_def DBM_ADDR_def DBM_REG_DECIBEL_def DBM_REG_MIN_def DBM_REG_MAX_def
  DBM_REG_RESET_def measure_calls_def displayStatus_calls_def displaySPL_calls_def
  cell_calls_def cell_ok_def cell_info_def cell_buf_def pack_cell_def sample_cell_def
  socket_ok_def socket_calls_def loop_h1_def loop_buf1_def float_to_uint8_def
  SERV_ADDR_def SERV_PORT_def PACKET_SIZE_def CRLF_def LF_def Let_def

lemma sample_packet:
  "dataBuf (cell_block (env_of sensor_ret) (snd (snd (snd (loop_measure (env_of sensor_ret) sample_state)))))
   = [0xA0, 0xA1, 0xA2, 0xA3, 0xA4, 0xA5, 0x4A, 0x4B, 0x4C, 0x00, 0xCE, 0x00, 0x01, 0x12, 0x34,
      0x01, 0x02, 0x03, 0x04, 0x61]"
  by (simp add: loop_measure_eq cell_block_eq sample_state_eq eval_defs)

lemma sample_socket:
  "fst (socketConnect (env_of sensor_ret) SERV_ADDR SERV_PORT
     (cell_block (env_of sensor_ret) (snd (snd (snd (loop_measure (env_of sensor_ret) sample_state))))))"
  by (simp add: socketConnect_eq loop_measure_eq cell_block_eq sample_state_eq eval_defs)

text \<open>
  C2: every packet handed to \<open>socketSend\<close> has the one fixed size: the call is made with
  the 20-byte buffer \<open>dataBuf\<close> and the length \<open>PACKET_SIZE = 20\<close>, in one iteration and
  in any number of iterations. An iteration sends once when the socket was opened (the
  buffer as it stands after the cell-information block), and not at all when opening the
  socket failed.
\<close>

theorem C2_packets_have_fixed_size:
  assumes "length (dataBuf s) = PACKET_SIZE"
  shows "PACKET_SIZE = 20
    \<and> (\<forall>(b, n) \<in> set (sent (new_calls s (snd (loop e s)))). n = 20 \<and> length b = 20)
    \<and> (\<forall>(b, n) \<in> set (sent (new_calls s (snd (run k e s)))). n = 20 \<and> length b = 20)
    \<and> (case loop_measure e s of (db, dbmin, dbmax, s1) \<Rightarrow>
         sent (new_calls s (snd (loop e s))) =
           (if fst (socketConnect e SERV_ADDR SERV_PORT (cell_block e s1))
            then [(dataBuf (cell_block e s1), 20)] else []))"
proof -
  have p: "PACKET_SIZE = 20" by (simp add: PACKET_SIZE_def)
  have l: "(b, n) \<in> set (sent (new_calls s (snd (loop e s)))) \<Longrightarrow> n = 20 \<and> length b = 20" for b n
    using loop_packets [of b n s e] assms p by simp
  have r: "(b, n) \<in> set (sent (new_calls s (snd (run k e s)))) \<Longrightarrow> n = 20 \<and> length b = 20" for b n
    using run_packets [of b n s k e] assms p by simp
  have c: "(case loop_measure e s of (db, dbmin, dbmax, s1) \<Rightarrow>
         sent (new_calls s (snd (loop e s))) =
           (if fst (socketConnect e SERV_ADDR SERV_PORT (cell_block e s1))
            then [(dataBuf (cell_block e s1), 20)] else []))"
    by (simp add: loop_sent loop_measure_eq cell_block_eq socketConnect_eq Let_def loop_h1_def
        loop_buf1_def p)
  show ?thesis using p l r c by blast
qed

theorem C2_packets_have_fixed_size_witness:
  "length (dataBuf sample_state) = PACKET_SIZE
   \<and> sent (new_calls sample_state (snd (loop (env_of sensor_ret) sample_state))) =
       [([0xA0, 0xA1, 0xA2, 0xA3, 0xA4, 0xA5, 0x4A, 0x4B, 0x4C, 0x00, 0xCE, 0x00, 0x01, 0x12, 0x34,
          0x01, 0x02, 0x03, 0x04, 0x61], 20)]"
proof -
  have h: "length (dataBuf sample_state) = PACKET_SIZE"
    by (simp add: sample_state_eq PACKET_SIZE_def)
  show ?thesis
    using C2_packets_have_fixed_size [OF h, of "env_of sensor_ret" 1] h sample_packet sample_socket
    by (simp split: prod.splits)
qed

section \<open>Failures and restarts\<close>

lemma quiet_Nil: "quiet []" by (simp add: quiet_def)

lemma quiet_append: "quiet (a @ b) = (quiet a \<and> quiet b)"
  by (auto simp: quiet_def)

lemma quiet_Cons: "quiet (ev # evs) = (\<not> restart_op ev \<and> ev \<noteq> EspRestart \<and> quiet evs)"
  by (auto simp: quiet_def)

lemma no_failure_append:
  "no_failure P e h (a @ b) = (no_failure P e h a \<and> no_failure P e (h @ a) b)"
  by (induction a arbitrary: h) auto

lemma no_failure_appendI:
  "no_failure P e h a \<Longrightarrow> no_failure P e (h @ a) b \<Longrightarrow> no_failure P e h (a @ b)"
  by (simp add: no_failure_append)

lemma no_failure_quiet: "quiet a \<Longrightarrow> no_failure restart_op e h a"
  by (induction a arbitrary: h) (auto simp: quiet_def)

lemma failures_restart_skip:
  "no_failure P e h a \<Longrightarrow> failures_restart P e h (a @ b) = failures_restart P e (h @ a) b"
  by (induction a arbitrary: h) auto

lemma failures_restart_no_failure: "no_failure P e h a \<Longrightarrow> failures_restart P e h a"
  by (induction a arbitrary: h) auto

lemma goodI_restart:
  "evs = a @ ev # logs @ [Delay 1000, EspRestart] \<Longrightarrow> no_failure restart_op e h a \<Longrightarrow>
   restart_op ev \<Longrightarrow> ret e (h @ a @ [ev]) = 0 \<Longrightarrow> (\<forall>l\<in>set logs. is_log l) \<Longrightarrow>
   good e h evs Restarted"
  unfolding good_def by auto

lemma good_failures_restart:
  assumes "good e h evs out"
  shows "failures_restart restart_op e h evs"
proof (cases out)
  case Returned
  then show ?thesis using assms by (simp add: good_def failures_restart_no_failure)
next
  case Restarted
  then obtain a ev logs where d: "evs = a @ ev # logs @ [Delay 1000, EspRestart]"
    and nf: "no_failure restart_op e h a" and p: "restart_op ev"
    and r: "ret e (h @ a @ [ev]) = 0" and l: "\<forall>l\<in>set logs. is_log l"
    using assms by (auto simp: good_def)
  have "dropWhile is_log (logs @ [Delay 1000, EspRestart]) = [Delay 1000, EspRestart]"
    using l by (simp add: dropWhile_append2 is_log_def)
  then show ?thesis
    using p r by (simp add: d failures_restart_skip [OF nf] restart_follows_def)
qed

lemma good_no_failure:
  assumes "good e h evs out" and "no_failure restart_op e h evs"
  shows "out = Returned \<and> EspRestart \<notin> set evs"
proof (cases out)
  case Returned
  then show ?thesis using assms by (simp add: good_def)
next
  case Restarted
  then obtain a ev logs where d: "evs = a @ ev # logs @ [Delay 1000, EspRestart]"
    and p: "restart_op ev" and r: "ret e (h @ a @ [ev]) = 0"
    using assms by (auto simp: good_def)
  then have False using assms(2) by (simp add: no_failure_append)
  then show ?thesis ..
qed

lemma quiet_read_calls: "quiet (read_calls dm r)"
  by (simp add: read_calls_def quiet_Cons quiet_Nil restart_op_def)

lemma quiet_write_calls: "quiet (write_calls dm r v)"
  by (simp add: write_calls_def quiet_Cons quiet_Nil restart_op_def)

lemma quiet_displayStatus_calls: "quiet (displayStatus_calls st)"
  by (simp add: displayStatus_calls_def quiet_Cons quiet_Nil restart_op_def)

lemma quiet_displaySPL_calls: "quiet (displaySPL_calls a b c)"
  by (simp add: displaySPL_calls_def quiet_Cons quiet_Nil restart_op_def)

lemma quiet_measure_calls: "quiet (measure_calls a b c)"
  by (simp add: measure_calls_def quiet_append quiet_read_calls quiet_write_calls
      quiet_displayStatus_calls quiet_Cons quiet_Nil restart_op_def)

lemma quiet_cell_calls: "quiet (cell_calls e h)"
  by (simp add: cell_calls_def quiet_Cons quiet_Nil restart_op_def)

lemma quiet_no_restart: "quiet a \<Longrightarrow> EspRestart \<notin> set a"
  by (auto simp: quiet_def)

lemma loop_good: "good e (trace s) (new_calls s (snd (loop e s))) (fst (loop e s))"
proof -
  define M where "M = measure_calls (reading e (trace s) DBM_REG_DECIBEL)
           (reading e (trace s @ read_calls dbmeter DBM_REG_DECIBEL) DBM_REG_MIN)
           (reading e (trace s @ read_calls dbmeter DBM_REG_DECIBEL @ read_calls dbmeter DBM_REG_MIN)
              DBM_REG_MAX)"
  define C where "C = cell_calls e (trace s @ M)"
  define buf where "buf = cell_buf e (trace s @ M) (loop_buf1 e (trace s) (dataBuf s))"
  define h2 where "h2 = trace s @ M @ C"
  define S where "S = socket_calls e SERV_ADDR SERV_PORT h2"
  define snd_ev where "snd_ev = ModemSocketSend buf PACKET_SIZE"
  define D where "D = cell_calls e (h2 @ S @ [snd_ev, Delay 5000])"
  define SPL where "SPL = displaySPL_calls (reading e (trace s) DBM_REG_DECIBEL)
           (reading e (trace s @ read_calls dbmeter DBM_REG_DECIBEL) DBM_REG_MIN)
           (reading e (trace s @ read_calls dbmeter DBM_REG_DECIBEL @ read_calls dbmeter DBM_REG_MIN)
              DBM_REG_MAX)"
  have h1: "loop_h1 e (trace s) = trace s @ M" by (simp add: loop_h1_def M_def)
  have q: "quiet M" "quiet C" "quiet D" "quiet SPL"
    by (simp_all add: M_def C_def D_def SPL_def quiet_measure_calls quiet_cell_calls
        quiet_displaySPL_calls)
  have nfMC: "no_failure restart_op e (trace s) (M @ C)"
    using q by (simp add: no_failure_quiet quiet_append)
  note loop = loop_eq [of e s, unfolded Let_def h1, folded M_def, folded C_def buf_def,
      folded h2_def]
  let ?cr = "ret e (h2 @ [ModemCreateSocket])"
  let ?cf = "ret e (h2 @ [ModemCreateSocket, ModemConfigSocket])"
  let ?cn = "ret e (h2 @ [ModemCreateSocket, ModemConfigSocket,
                          ModemConnectSocket SERV_ADDR SERV_PORT SERV_PORT])"
  show ?thesis
  proof (cases "socket_ok e SERV_ADDR SERV_PORT h2")
    case False
    have res: "fst (loop e s) = Restarted"
      "new_calls s (snd (loop e s)) = M @ C @ S @
         [SerialPrint (''Could not connect to UDP server socket'' @ CRLF), Delay 1000, EspRestart]"
      using False by (simp_all add: loop_eq Let_def h1 new_calls_def h2_def C_def S_def)
    consider (create) "?cr = 0" | (config) "?cr \<noteq> 0" "?cf = 0"
      | (connect) "?cr \<noteq> 0" "?cf \<noteq> 0" "?cn = 0"
      using False by (auto simp: socket_ok_def)
    then have "good e (trace s) (M @ C @ S @
         [SerialPrint (''Could not connect to UDP server socket'' @ CRLF), Delay 1000, EspRestart])
         Restarted"
    proof cases
      case create
      then have S: "S = [ModemCreateSocket, SerialPrint (''Could not create a new socket'' @ CRLF)]"
        by (simp add: S_def socket_calls_def)
      show ?thesis
        by (rule goodI_restart [where a = "M @ C" and ev = ModemCreateSocket
              and logs = "[SerialPrint (''Could not create a new socket'' @ CRLF),
                           SerialPrint (''Could not connect to UDP server socket'' @ CRLF)]"])
           (use create nfMC in \<open>simp_all add: S h2_def restart_op_def is_log_def\<close>)
    next
      case config
      then have S: "S = [ModemCreateSocket, ModemConfigSocket,
                         SerialPrint (''Could not configure the socket'' @ CRLF)]"
        by (simp add: S_def socket_calls_def)
      show ?thesis
        by (rule goodI_restart [where a = "M @ C @ [ModemCreateSocket]" and ev = ModemConfigSocket
              and logs = "[SerialPrint (''Could not configure the socket'' @ CRLF),
                           SerialPrint (''Could not connect to UDP server socket'' @ CRLF)]"])
           (use config nfMC in \<open>simp_all add: S h2_def restart_op_def is_log_def no_failure_append\<close>)
    next
      case connect
      then have S: "S = [ModemCreateSocket, ModemConfigSocket,
                         ModemConnectSocket SERV_ADDR SERV_PORT SERV_PORT,
                         SerialPrint (''Could not connect UDP socket'' @ CRLF)]"
        by (simp add: S_def socket_calls_def)
      show ?thesis
        by (rule goodI_restart [where a = "M @ C @ [ModemCreateSocket, ModemConfigSocket]"
              and ev = "ModemConnectSocket SERV_ADDR SERV_PORT SERV_PORT"
              and logs = "[SerialPrint (''Could not connect UDP socket'' @ CRLF),
                           SerialPrint (''Could not connect to UDP server socket'' @ CRLF)]"])
           (use connect nfMC in \<open>simp_all add: S h2_def restart_op_def is_log_def no_failure_append\<close>)
    qed
    then show ?thesis by (simp only: res)
  next
    case True
    then have ok: "?cr \<noteq> 0" "?cf \<noteq> 0" "?cn \<noteq> 0"
      by (simp_all add: socket_ok_def)
    then have S: "S = [ModemCreateSocket, ModemConfigSocket,
                       ModemConnectSocket SERV_ADDR SERV_PORT SERV_PORT,
                       SerialPrintf (''Connected to UDP server %s:%d'' @ CRLF)
                         [PStr SERV_ADDR, PInt (uint SERV_PORT)]]"
      by (simp add: S_def socket_calls_def)
    have nfS: "no_failure restart_op e (trace s) (M @ C @ S)"
      using ok nfMC by (simp add: S h2_def no_failure_append restart_op_def)
    have noR: "EspRestart \<notin> set (M @ C @ S)"
      using q by (simp add: S quiet_no_restart)
    show ?thesis
    proof (cases "ret e (h2 @ S @ [snd_ev]) = 0")
      case sendfail: True
      have res: "fst (loop e s) = Restarted"
        "new_calls s (snd (loop e s)) = (M @ C @ S) @ snd_ev #
           [SerialPrint (''Could not transmit data'' @ CRLF)] @ [Delay 1000, EspRestart]"
        using True sendfail
        by (simp_all add: loop_eq Let_def h1 new_calls_def h2_def C_def S_def snd_ev_def buf_def)
      have "good e (trace s) ((M @ C @ S) @ snd_ev #
           [SerialPrint (''Could not transmit data'' @ CRLF)] @ [Delay 1000, EspRestart]) Restarted"
        by (rule goodI_restart [OF refl nfS])
           (use sendfail in \<open>simp_all add: h2_def restart_op_def is_log_def snd_ev_def\<close>)
      then show ?thesis by (simp only: res)
    next
      case sendok: False
      have nfD: "no_failure restart_op e (trace s) (M @ C @ S @ [snd_ev, Delay 5000] @ D)"
        using nfS sendok q
        by (simp add: no_failure_append no_failure_quiet h2_def restart_op_def)
      show ?thesis
      proof (cases "ret e (h2 @ S @ [snd_ev, Delay 5000] @ D @ [ModemCloseSocket]) = 0")
        case closefail: True
        have res: "fst (loop e s) = Restarted"
          "new_calls s (snd (loop e s)) = (M @ C @ S @ [snd_ev, Delay 5000] @ D) @ ModemCloseSocket #
             [SerialPrint (''Could not close the socket'' @ CRLF)] @ [Delay 1000, EspRestart]"
          using True sendok closefail
          by (simp_all add: loop_eq Let_def h1 new_calls_def h2_def C_def S_def snd_ev_def buf_def
              D_def)
        have "good e (trace s) ((M @ C @ S @ [snd_ev, Delay 5000] @ D) @ ModemCloseSocket #
             [SerialPrint (''Could not close the socket'' @ CRLF)] @ [Delay 1000, EspRestart])
             Restarted"
          by (rule goodI_restart [OF refl nfD])
             (use closefail in \<open>simp_all add: h2_def restart_op_def is_log_def\<close>)
        then show ?thesis by (simp only: res)
      next
        case closeok: False
        have res: "fst (loop e s) = Returned"
          "new_calls s (snd (loop e s)) =
             (M @ C @ S @ [snd_ev, Delay 5000] @ D) @ [ModemCloseSocket] @ SPL @ [Delay 60000]"
          using True sendok closeok
          by (simp_all add: loop_eq Let_def h1 new_calls_def h2_def C_def S_def snd_ev_def buf_def
              D_def SPL_def)
        have "no_failure restart_op e (trace s @ M @ C @ S @ [snd_ev, Delay 5000] @ D)
               ([ModemCloseSocket] @ SPL @ [Delay 60000])"
          using closeok q
          by (simp add: no_failure_append [of _ _ _ SPL] no_failure_quiet h2_def restart_op_def)
        with nfD have "no_failure restart_op e (trace s)
               ((M @ C @ S @ [snd_ev, Delay 5000] @ D) @ [ModemCloseSocket] @ SPL @ [Delay 60000])"
          by (rule no_failure_appendI)
        moreover have "EspRestart \<notin> set
               ((M @ C @ S @ [snd_ev, Delay 5000] @ D) @ [ModemCloseSocket] @ SPL @ [Delay 60000])"
          using noR q by (simp add: quiet_no_restart snd_ev_def)
        ultimately show ?thesis by (simp only: res good_def outcome.case) simp
      qed
    qed
  qed
qed

subsection \<open>The boot sequence\<close>

lemma good_prepend_quiet:
  assumes "quiet a" and "good e (h @ a) c out"
  shows "good e h (a @ c) out"
proof (cases out)
  case Returned
  then show ?thesis
    using assms by (simp add: good_def no_failure_append no_failure_quiet quiet_no_restart)
next
  case Restarted
  then obtain a0 ev logs where d: "c = a0 @ ev # logs @ [Delay 1000, EspRestart]"
    and nf: "no_failure restart_op e (h @ a) a0" and p: "restart_op ev"
    and r: "ret e ((h @ a) @ a0 @ [ev]) = 0" and l: "\<forall>l\<in>set logs. is_log l"
    using assms(2) by (auto simp: good_def)
  have "good e h ((a @ a0) @ ev # logs @ [Delay 1000, EspRestart]) Restarted"
    by (rule goodI_restart [OF refl])
       (use nf p r l assms(1) in \<open>simp_all add: no_failure_append no_failure_quiet\<close>)
  then show ?thesis using Restarted d by simp
qed

lemma screen_begin_loop_some:
  "screen_begin_loop n e s = Some s' \<Longrightarrow>
   \<exists>a. trace s' = trace s @ a \<and> quiet a \<and> dataBuf s' = dataBuf s \<and> rsp s' = rsp s"
proof (induction n arbitrary: s)
  case 0
  then show ?case
    by (auto simp: call_def quiet_Cons quiet_Nil restart_op_def split: if_splits)
next
  case (Suc n)
  show ?case
  proof (cases "ret e (trace s @ [ScreenBegin SCREEN_ADDRESS]) = 0")
    case False
    then show ?thesis using Suc.prems
      by (auto simp: call_def quiet_Cons quiet_Nil restart_op_def)
  next
    case True
    define s1 where "s1 = s\<lparr>trace := trace s @ [ScreenBegin SCREEN_ADDRESS,
        SerialPrintln ''SSD1306 allocation failed'', Delay 1000]\<rparr>"
    have "screen_begin_loop n e s1 = Some s'"
      using Suc.prems True by (simp add: call_def exec_eq s1_def)
    then obtain a where a: "trace s' = trace s1 @ a" "quiet a" "dataBuf s' = dataBuf s1"
      "rsp s' = rsp s1"
      using Suc.IH by blast
    have "trace s' = trace s @ ([ScreenBegin SCREEN_ADDRESS,
        SerialPrintln ''SSD1306 allocation failed'', Delay 1000] @ a)"
      using a by (simp add: s1_def)
    moreover have "quiet ([ScreenBegin SCREEN_ADDRESS,
        SerialPrintln ''SSD1306 allocation failed'', Delay 1000] @ a)"
      using a by (simp add: quiet_Cons restart_op_def)
    ultimately show ?thesis using a by (auto simp: s1_def)
  qed
qed

lemma lteConnect_wait_some:
  "lteConnect_wait n e r s = Some s' \<Longrightarrow>
   \<exists>a. trace s' = trace s @ a \<and> quiet a \<and> dataBuf s' = dataBuf s \<and> rsp s' = rsp s"
proof (induction n arbitrary: s r)
  case 0
  then show ?case by (auto simp: quiet_Nil split: if_splits)
next
  case (Suc n)
  show ?case
  proof (cases "r = WALTER_MODEM_NETWORK_REG_REGISTERED_HOME \<or>
                r = WALTER_MODEM_NETWORK_REG_REGISTERED_ROAMING")
    case True
    then show ?thesis using Suc.prems by (auto simp: quiet_Nil)
  next
    case False
    define s1 where "s1 = s\<lparr>trace := trace s @ [Delay 100, ModemGetNetworkRegState]\<rparr>"
    have "lteConnect_wait n e (regstate_rsp e (trace s1)) s1 = Some s'"
      using Suc.prems False by (simp add: getNetworkRegState_def exec_eq s1_def)
    then obtain a where a: "trace s' = trace s1 @ a" "quiet a" "dataBuf s' = dataBuf s1"
      "rsp s' = rsp s1"
      using Suc.IH by blast
    have "trace s' = trace s @ ([Delay 100, ModemGetNetworkRegState] @ a)"
      using a by (simp add: s1_def)
    moreover have "quiet ([Delay 100, ModemGetNetworkRegState] @ a)"
      using a by (simp add: quiet_Cons restart_op_def)
    ultimately show ?thesis using a by (auto simp: s1_def)
  qed
qed

lemma setup_display_some:
  assumes "setup_display n e s = Some s'"
  shows "\<exists>a. trace s' = trace s @ a \<and> quiet a \<and> dataBuf s' = dataBuf s \<and> rsp s' = rsp s"
proof -
  define pre where "pre = [SerialBegin 115200, Delay 5000,
      SerialPrint (''Sound Pressure Level sensor v0.0.2'' @ CRLF), PinMode 8 OUTPUT,
      PinMode 18 OUTPUT, DigitalWrite 8 LOW, DigitalWrite 18 HIGH, PinMode 0 OUTPUT,
      DigitalWrite 0 LOW, Delay 50, Wire 1 (WBegin SCREEN_SDA SCREEN_SCL 400000)]"
  have q: "quiet pre" by (simp add: pre_def quiet_Cons quiet_Nil restart_op_def)
  have "screen_begin_loop n e (s\<lparr>trace := trace s @ pre\<rparr>) = Some s'"
    using assms by (simp add: setup_display_def exec_eq pre_def)
  then obtain a where a: "trace s' = trace (s\<lparr>trace := trace s @ pre\<rparr>) @ a" "quiet a"
      "dataBuf s' = dataBuf (s\<lparr>trace := trace s @ pre\<rparr>)" "rsp s' = rsp (s\<lparr>trace := trace s @ pre\<rparr>)"
    using screen_begin_loop_some by blast
  then have "trace s' = trace s @ (pre @ a)" "quiet (pre @ a)" "dataBuf s' = dataBuf s"
    "rsp s' = rsp s"
    using q by (simp_all add: quiet_append)
  then show ?thesis by blast
qed

lemma setup_sensor_eq:
  "\<exists>a h. trace (setup_sensor e s) = trace s @ a \<and> quiet a \<and> rsp (setup_sensor e s) = rsp s \<and>
     dataBuf (setup_sensor e s) =
       (dataBuf s)[0 := mac_rsp e h 0, 1 := mac_rsp e h 1, 2 := mac_rsp e h 2,
                   3 := mac_rsp e h 3, 4 := mac_rsp e h 4, 5 := mac_rsp e h 5]"
proof -
  define v where "v = (word_of_int (ret e (trace s @ displayStatus_calls ''Booting SPL v0.0.2'' @
      [Delay 1000, Wire (wire dbmeter) (WBegin (sda dbmeter) (scl dbmeter) (frequency dbmeter))] @
      read_calls dbmeter DBM_REG_VERSION)) :: uint8_t)"
  define a1 where "a1 = displayStatus_calls ''Booting SPL v0.0.2'' @
      [Delay 1000, Wire (wire dbmeter) (WBegin (sda dbmeter) (scl dbmeter) (frequency dbmeter))] @
      read_calls dbmeter DBM_REG_VERSION @
      [SerialPrintf (''Decibel meter version: 0x%02X'' @ LF) [PInt (uint v)]] @
      write_calls dbmeter DBM_REG_TAVG_HIGH (ucast (drop_bit 8 (1000::uint16_t) AND 0xFF)) @
      write_calls dbmeter DBM_REG_TAVG_LOW (ucast ((1000::uint16_t) AND 0xFF)) @
      write_calls dbmeter DBM_REG_RESET 2 @ [EspReadMac]"
  define buf where "buf = (dataBuf s)[0 := mac_rsp e (trace s @ a1) 0, 1 := mac_rsp e (trace s @ a1) 1,
      2 := mac_rsp e (trace s @ a1) 2, 3 := mac_rsp e (trace s @ a1) 3,
      4 := mac_rsp e (trace s @ a1) 4, 5 := mac_rsp e (trace s @ a1) 5]"
  define a2 where "a2 = [SerialPrintf (''Walter's MAC is: %02X:%02X:%02X:%02X:%02X:%02X'' @ CRLF)
                [PInt (uint (buf ! 0)), PInt (uint (buf ! 1)),
                 PInt (uint (buf ! 2)), PInt (uint (buf ! 3)),
                 PInt (uint (buf ! 4)), PInt (uint (buf ! 5))]]"
  have q: "quiet (a1 @ a2)"
    by (simp add: a1_def a2_def quiet_append quiet_Cons quiet_Nil quiet_read_calls quiet_write_calls
        quiet_displayStatus_calls restart_op_def)
  have "setup_sensor e s = s\<lparr>trace := trace s @ a1 @ a2, dataBuf := buf\<rparr>"
    by (simp add: setup_sensor_def displayStatus_eq exec_eq begin_dm_def getVersion_def
        readRegister_eq setAveragingInterval_def resetMinMax_def writeRegister_eq
        esp_read_mac_def Let_def a1_def a2_def buf_def v_def)
  then show ?thesis using q buf_def by (intro exI [of _ "a1 @ a2"] exI [of _ "trace s @ a1"]) simp
qed

lemma lteConnect_some:
  assumes "lteConnect n e s = Some (ok, s')"
  shows "dataBuf s' = dataBuf s \<and> rsp s' = rsp s \<and>
    ((\<not> ok \<and> ret e (trace s @ [ModemSetOpStateFull]) = 0 \<and>
        trace s' = trace s @ [ModemSetOpStateFull,
          SerialPrint (''Could not set operational state to FULL'' @ CRLF)])
     \<or> (\<not> ok \<and> ret e (trace s @ [ModemSetOpStateFull]) \<noteq> 0 \<and>
        ret e (trace s @ [ModemSetOpStateFull, ModemSetNetworkSelectionModeAutomatic]) = 0 \<and>
        trace s' = trace s @ [ModemSetOpStateFull, ModemSetNetworkSelectionModeAutomatic,
          SerialPrint (''Could not set the network selection mode to automatic'' @ CRLF)])
     \<or> (ok \<and> ret e (trace s @ [ModemSetOpStateFull]) \<noteq> 0 \<and>
        ret e (trace s @ [ModemSetOpStateFull, ModemSetNetworkSelectionModeAutomatic]) \<noteq> 0 \<and>
        (\<exists>a. quiet a \<and> trace s' =
           trace s @ [ModemSetOpStateFull, ModemSetNetworkSelectionModeAutomatic] @ a)))"
proof (cases "ret e (trace s @ [ModemSetOpStateFull]) = 0")
  case True
  then show ?thesis using assms by (auto simp: lteConnect_def call_def exec_eq)
next
  case op: False
  show ?thesis
  proof (cases "ret e (trace s @ [ModemSetOpStateFull, ModemSetNetworkSelectionModeAutomatic]) = 0")
    case True
    then show ?thesis using assms op by (auto simp: lteConnect_def call_def exec_eq)
  next
    case False
    define s1 where "s1 = s\<lparr>trace := trace s @ [ModemSetOpStateFull,
        ModemSetNetworkSelectionModeAutomatic, ModemGetNetworkRegState]\<rparr>"
    obtain s2 where w: "lteConnect_wait n e (regstate_rsp e (trace s1)) s1 = Some s2"
      and r: "ok" "s' = s2\<lparr>trace := trace s2 @ [SerialPrint (''Connected to the network'' @ CRLF)]\<rparr>"
      using assms op False
      by (auto simp: lteConnect_def call_def exec_eq getNetworkRegState_def s1_def
          split: option.splits)
    obtain a where a: "trace s2 = trace s1 @ a" "quiet a" "dataBuf s2 = dataBuf s1" "rsp s2 = rsp s1"
      using lteConnect_wait_some [OF w] by blast
    have "quiet ([ModemGetNetworkRegState] @ a @ [SerialPrint (''Connected to the network'' @ CRLF)])"
      using a by (simp add: quiet_append quiet_Cons quiet_Nil restart_op_def)
    moreover have "trace s' = trace s @ [ModemSetOpStateFull, ModemSetNetworkSelectionModeAutomatic]
        @ ([ModemGetNetworkRegState] @ a @ [SerialPrint (''Connected to the network'' @ CRLF)])"
      using a r by (simp add: s1_def)
    ultimately have "\<exists>a. quiet a \<and> trace s' =
           trace s @ [ModemSetOpStateFull, ModemSetNetworkSelectionModeAutomatic] @ a"
      by blast
    then show ?thesis using op False r a by (simp add: s1_def)
  qed
qed

lemma quiet_rat_calls: "quiet (rat_calls e h)"
  by (simp add: rat_calls_def quiet_Cons quiet_Nil restart_op_def)

lemma setup_modem_eq:
  "setup_modem n e s =
     (let h0 = trace s @ displayStatus_calls ''Starting modem...'' @ [ModemBegin] in
      if ret e h0 = 0
      then Some (Restarted,
             s\<lparr>trace := h0 @ [SerialPrint (''Modem initialization ERROR'' @ CRLF), Delay 1000,
                               EspRestart]\<rparr>)
      else
        let h1 = h0 @ [SerialPrint (''Modem initialization OK'' @ CRLF)];
            h2 = h1 @ rat_calls e h1 @ [ModemCreatePDPContext []]
        in
        if ret e h2 = 0
        then Some (Restarted,
               s\<lparr>trace := h2 @ [SerialPrintln ''Could not create PDP context'', Delay 1000,
                                 EspRestart]\<rparr>)
        else
          case lteConnect n e (s\<lparr>trace := h2 @ displayStatus_calls ''Connecting...''\<rparr>) of
            None \<Rightarrow> None
          | Some (ok, s1) \<Rightarrow>
              if \<not> ok
              then Some (Restarted,
                     s1\<lparr>trace := trace s1 @
                        [SerialPrint (''Could not connect to the LTE network'' @ CRLF), Delay 1000,
                         EspRestart]\<rparr>)
              else Some (Returned, s1))"
  by (simp add: setup_modem_def displayStatus_eq call_def exec_eq getRAT_def Let_def rat_calls_def
      split: option.splits)

lemma setup_modem_good:
  assumes "setup_modem n e s = Some (out, s')"
  shows "good e (trace s) (new_calls s s') out \<and> dataBuf s' = dataBuf s \<and> rsp s' = rsp s \<and>
     (\<exists>a. trace s' = trace s @ a)"
proof -
  define A where "A = displayStatus_calls ''Starting modem...''"
  define h0 where "h0 = trace s @ A @ [ModemBegin]"
  define B where "B = SerialPrint (''Modem initialization OK'' @ CRLF) #
      rat_calls e (h0 @ [SerialPrint (''Modem initialization OK'' @ CRLF)])"
  define h2 where "h2 = h0 @ B @ [ModemCreatePDPContext []]"
  define D where "D = displayStatus_calls ''Connecting...''"
  have q: "quiet A" "quiet B" "quiet D"
    by (simp_all add: A_def B_def D_def quiet_displayStatus_calls quiet_rat_calls quiet_Cons
        restart_op_def)
  have nfA: "no_failure restart_op e (trace s) A" using q by (simp add: no_failure_quiet)
  show ?thesis
  proof (cases "ret e h0 = 0")
    case True
    then have res: "out = Restarted"
      "s' = s\<lparr>trace := trace s @ A @ ModemBegin #
          [SerialPrint (''Modem initialization ERROR'' @ CRLF)] @ [Delay 1000, EspRestart]\<rparr>"
      using assms by (simp_all add: setup_modem_eq Let_def h0_def A_def)
    have "good e (trace s) (A @ ModemBegin #
          [SerialPrint (''Modem initialization ERROR'' @ CRLF)] @ [Delay 1000, EspRestart]) Restarted"
      by (rule goodI_restart [OF refl nfA])
         (use True in \<open>simp_all add: h0_def restart_op_def is_log_def\<close>)
    then show ?thesis by (simp add: res new_calls_def)
  next
    case mb: False
    have nfB: "no_failure restart_op e (trace s) (A @ [ModemBegin] @ B)"
      using mb q by (simp add: no_failure_append no_failure_quiet h0_def restart_op_def)
    show ?thesis
    proof (cases "ret e h2 = 0")
      case True
      then have res: "out = Restarted"
        "s' = s\<lparr>trace := trace s @ (A @ [ModemBegin] @ B) @ ModemCreatePDPContext [] #
            [SerialPrintln ''Could not create PDP context''] @ [Delay 1000, EspRestart]\<rparr>"
        using assms mb by (simp_all add: setup_modem_eq Let_def h0_def h2_def A_def B_def)
      have "good e (trace s) ((A @ [ModemBegin] @ B) @ ModemCreatePDPContext [] #
            [SerialPrintln ''Could not create PDP context''] @ [Delay 1000, EspRestart]) Restarted"
        by (rule goodI_restart [OF refl nfB])
           (use True in \<open>simp_all add: h0_def h2_def restart_op_def is_log_def\<close>)
      then show ?thesis by (simp add: res new_calls_def)
    next
      case pdp: False
      define P where "P = A @ [ModemBegin] @ B @ [ModemCreatePDPContext []] @ D"
      have hP: "trace s @ P = h2 @ D" by (simp add: P_def h2_def h0_def)
      have nfP: "no_failure restart_op e (trace s) P"
      proof -
        have "no_failure restart_op e (trace s @ A @ [ModemBegin] @ B) ([ModemCreatePDPContext []] @ D)"
          using pdp q by (simp add: no_failure_quiet h2_def h0_def restart_op_def)
        with nfB have "no_failure restart_op e (trace s) ((A @ [ModemBegin] @ B) @ [ModemCreatePDPContext []] @ D)"
          by (rule no_failure_appendI)
        then show ?thesis by (simp add: P_def)
      qed
      have noRP: "EspRestart \<notin> set P"
        using q by (simp add: P_def quiet_no_restart)
      obtain ok s1 where lte: "lteConnect n e (s\<lparr>trace := trace s @ P\<rparr>) = Some (ok, s1)"
        and fin: "(out, s') = (if \<not> ok then (Restarted, s1\<lparr>trace := trace s1 @
                        [SerialPrint (''Could not connect to the LTE network'' @ CRLF), Delay 1000,
                         EspRestart]\<rparr>) else (Returned, s1))"
        using assms mb pdp
        by (auto simp: setup_modem_eq Let_def h0_def h2_def A_def B_def D_def P_def
            split: option.splits if_splits)
      note L = lteConnect_some [OF lte]
      have fr: "dataBuf s1 = dataBuf s" "rsp s1 = rsp s" using L by simp_all
      let ?op = "ret e (trace s @ P @ [ModemSetOpStateFull])"
      let ?ns = "ret e (trace s @ P @ [ModemSetOpStateFull, ModemSetNetworkSelectionModeAutomatic])"
      consider (opfail) "\<not> ok" "?op = 0" "trace s1 = trace s @ P @ [ModemSetOpStateFull,
          SerialPrint (''Could not set operational state to FULL'' @ CRLF)]"
        | (nsfail) "\<not> ok" "?op \<noteq> 0" "?ns = 0"
          "trace s1 = trace s @ P @ [ModemSetOpStateFull, ModemSetNetworkSelectionModeAutomatic,
          SerialPrint (''Could not set the network selection mode to automatic'' @ CRLF)]"
        | (fine) a where "ok" "?op \<noteq> 0" "?ns \<noteq> 0" "quiet a"
          "trace s1 = trace s @ P @ [ModemSetOpStateFull, ModemSetNetworkSelectionModeAutomatic] @ a"
        using L by auto
      then show ?thesis
      proof cases
        case opfail
        have res: "out = Restarted" "new_calls s s' = P @ ModemSetOpStateFull #
            [SerialPrint (''Could not set operational state to FULL'' @ CRLF),
             SerialPrint (''Could not connect to the LTE network'' @ CRLF)] @ [Delay 1000, EspRestart]"
          "dataBuf s' = dataBuf s" "rsp s' = rsp s" "\<exists>a. trace s' = trace s @ a"
          using fin opfail fr by (simp_all add: new_calls_def)
        have "good e (trace s) (P @ ModemSetOpStateFull #
            [SerialPrint (''Could not set operational state to FULL'' @ CRLF),
             SerialPrint (''Could not connect to the LTE network'' @ CRLF)] @ [Delay 1000, EspRestart])
            Restarted"
          by (rule goodI_restart [OF refl nfP])
             (use opfail in \<open>simp_all add: restart_op_def is_log_def\<close>)
        then show ?thesis using res by simp
      next
        case nsfail
        have res: "out = Restarted" "new_calls s s' = (P @ [ModemSetOpStateFull]) @
            ModemSetNetworkSelectionModeAutomatic #
            [SerialPrint (''Could not set the network selection mode to automatic'' @ CRLF),
             SerialPrint (''Could not connect to the LTE network'' @ CRLF)] @ [Delay 1000, EspRestart]"
          "dataBuf s' = dataBuf s" "rsp s' = rsp s" "\<exists>a. trace s' = trace s @ a"
          using fin nsfail fr by (simp_all add: new_calls_def)
        have nf: "no_failure restart_op e (trace s) (P @ [ModemSetOpStateFull])"
          using nfP nsfail by (simp add: no_failure_append)
        have "good e (trace s) ((P @ [ModemSetOpStateFull]) @
            ModemSetNetworkSelectionModeAutomatic #
            [SerialPrint (''Could not set the network selection mode to automatic'' @ CRLF),
             SerialPrint (''Could not connect to the LTE network'' @ CRLF)] @ [Delay 1000, EspRestart])
            Restarted"
          by (rule goodI_restart [OF refl nf])
             (use nsfail in \<open>simp_all add: restart_op_def is_log_def\<close>)
        then show ?thesis using res by simp
      next
        case fine
        have res: "out = Returned"
          "new_calls s s' = P @ [ModemSetOpStateFull, ModemSetNetworkSelectionModeAutomatic] @ a"
          "dataBuf s' = dataBuf s" "rsp s' = rsp s" "\<exists>a. trace s' = trace s @ a"
          using fin fine fr by (simp_all add: new_calls_def)
        have "no_failure restart_op e (trace s @ P)
            ([ModemSetOpStateFull, ModemSetNetworkSelectionModeAutomatic] @ a)"
          using fine by (simp add: no_failure_quiet)
        with nfP have "no_failure restart_op e (trace s)
            (P @ [ModemSetOpStateFull, ModemSetNetworkSelectionModeAutomatic] @ a)"
          by (rule no_failure_appendI)
        moreover have "EspRestart \<notin> set
            (P @ [ModemSetOpStateFull, ModemSetNetworkSelectionModeAutomatic] @ a)"
          using noRP fine by (simp add: quiet_no_restart)
        ultimately show ?thesis using res by (simp add: good_def)
      qed
    qed
  qed
qed

lemma setup_sketch_good:
  assumes "setup_sketch n e s = Some (out, s')"
  shows "good e (trace s) (new_calls s s') out"
proof -
  obtain s1 where d: "setup_display n e s = Some s1"
    and m: "setup_modem n e (setup_sensor e s1) = Some (out, s')"
    using assms by (auto simp: setup_sketch_def split: option.splits)
  obtain a where a: "trace s1 = trace s @ a" "quiet a"
    using setup_display_some [OF d] by blast
  obtain b where b: "trace (setup_sensor e s1) = trace s1 @ b" "quiet b"
    using setup_sensor_eq [of e s1] by blast
  obtain c where c: "trace s' = trace (setup_sensor e s1) @ c"
    using setup_modem_good [OF m] by blast
  have g: "good e (trace s @ a @ b) c out"
    using setup_modem_good [OF m] a b c by (simp add: new_calls_def)
  have "good e (trace s) ((a @ b) @ c) out"
    by (rule good_prepend_quiet) (use a b g in \<open>simp_all add: quiet_append\<close>)
  moreover have "new_calls s s' = (a @ b) @ c"
    using a b c by (simp add: new_calls_def)
  ultimately show ?thesis by simp
qed

lemmas run_defs = loop_eq sample_state_eq eval_defs new_calls_def
  failure_op_def restart_op_def restart_follows_def is_log_def

subsection \<open>Concrete runs\<close>

lemma cf_trace:
  "fst (loop env_cell_fails sample_state) = Returned
   \<and> \<not> failures_restart failure_op env_cell_fails (trace sample_state)
        (new_calls sample_state (snd (loop env_cell_fails sample_state)))
   \<and> no_failure restart_op env_cell_fails (trace sample_state)
        (new_calls sample_state (snd (loop env_cell_fails sample_state)))"
  by (simp add: run_defs env_cell_fails_def)

lemma sf_trace:
  "fst (loop env_send_fails sample_state) = Restarted
   \<and> failures_restart restart_op env_send_fails (trace sample_state)
        (new_calls sample_state (snd (loop env_send_fails sample_state)))"
  by (simp add: run_defs env_send_fails_def)

lemmas setup_defs = setup_sketch_def setup_display_def setup_sensor_def setup_modem_eq
  lteConnect_def getNetworkRegState_def call_def exec_eq displayStatus_eq begin_dm_def
  getVersion_def readRegister_eq setAveragingInterval_def resetMinMax_def writeRegister_eq
  esp_read_mac_def rat_calls_def boot_state_def SCREEN_ADDRESS_def SCREEN_SDA_def SCREEN_SCL_def
  RADIO_TECHNOLOGY_def DBM_REG_VERSION_def DBM_REG_TAVG_HIGH_def DBM_REG_TAVG_LOW_def
  DB_METER_SDA_def DB_METER_SCL_def

lemma su_run:
  "\<exists>x. setup_sketch (Suc 0) env_setup_soft boot_state = Some (Returned, x)
      \<and> \<not> failures_restart failure_op env_setup_soft [] (trace x) 
      \<and> no_failure restart_op env_setup_soft [] (trace x)"
  by (simp add: setup_defs run_defs env_setup_soft_def)

lemma setup_modem_restarts:
  "(ret e (modem_h0 s) = 0 \<longrightarrow>
      setup_modem n e s = Some (Restarted,
        s\<lparr>trace := modem_h0 s @ [SerialPrint (''Modem initialization ERROR'' @ CRLF),
                                  Delay 1000, EspRestart]\<rparr>))
   \<and> (ret e (modem_h0 s) \<noteq> 0 \<and> ret e (modem_h2 e s) = 0 \<longrightarrow>
      setup_modem n e s = Some (Restarted,
        s\<lparr>trace := modem_h2 e s @ [SerialPrintln ''Could not create PDP context'',
                                    Delay 1000, EspRestart]\<rparr>))
   \<and> (ret e (modem_h0 s) \<noteq> 0 \<and> ret e (modem_h2 e s) \<noteq> 0 \<and> ret e (modem_h3 e s) = 0 \<longrightarrow>
      setup_modem n e s = Some (Restarted,
        s\<lparr>trace := modem_h3 e s @
           [SerialPrint (''Could not set operational state to FULL'' @ CRLF),
            SerialPrint (''Could not connect to the LTE network'' @ CRLF),
            Delay 1000, EspRestart]\<rparr>))
   \<and> (ret e (modem_h0 s) \<noteq> 0 \<and> ret e (modem_h2 e s) \<noteq> 0 \<and> ret e (modem_h3 e s) \<noteq> 0
        \<and> ret e (modem_h4 e s) = 0 \<longrightarrow>
      setup_modem n e s = Some (Restarted,
        s\<lparr>trace := modem_h4 e s @
           [SerialPrint (''Could not set the network selection mode to automatic'' @ CRLF),
            SerialPrint (''Could not connect to the LTE network'' @ CRLF),
            Delay 1000, EspRestart]\<rparr>))"
  by (simp add: setup_modem_eq Let_def lteConnect_def call_def exec_eq modem_h0_def modem_h2_def
      modem_h3_def modem_h4_def)

lemma setup_sketch_display:
  "setup_display n e s = Some s1 \<Longrightarrow> setup_sketch n e s = setup_modem n e (setup_sensor e s1)"
  by (simp add: setup_sketch_def)

lemma loop_failure_Restarted:
  "\<not> no_failure restart_op e (trace s) (new_calls s (snd (loop e s))) \<Longrightarrow>
   fst (loop e s) = Restarted"
  using loop_good [of e s] by (cases "fst (loop e s)") (simp_all add: good_def)

lemma setup_failure_Restarted:
  "setup_sketch n e s = Some (out, s') \<Longrightarrow> \<not> no_failure restart_op e (trace s) (new_calls s s')
   \<Longrightarrow> out = Restarted"
  using setup_sketch_good [of n e s out s'] by (cases out) (simp_all add: good_def)

lemma env_failing_ret:
  "ret (env_failing P) (h @ [ev]) = (if P ev then 0 else 1)"
  by (simp add: env_failing_def env_of_def)

lemma setup_display_ok:
  "ret e (trace s @ [SerialBegin 115200, Delay 5000,
      SerialPrint (''Sound Pressure Level sensor v0.0.2'' @ CRLF), PinMode 8 OUTPUT,
      PinMode 18 OUTPUT, DigitalWrite 8 LOW, DigitalWrite 18 HIGH, PinMode 0 OUTPUT,
      DigitalWrite 0 LOW, Delay 50, Wire 1 (WBegin SCREEN_SDA SCREEN_SCL 400000),
      ScreenBegin SCREEN_ADDRESS]) \<noteq> 0 \<Longrightarrow>
   \<exists>s1. setup_display n e s = Some s1"
  by (cases n) (simp_all add: setup_display_def exec_eq call_def)

lemma setup_modem_returns:
  assumes "ret e (modem_h0 s) \<noteq> 0" "ret e (modem_h2 e s) \<noteq> 0" "ret e (modem_h3 e s) \<noteq> 0"
    "ret e (modem_h4 e s) \<noteq> 0"
    "lteConnect_wait n e (regstate_rsp e (modem_h4 e s @ [ModemGetNetworkRegState]))
       (s\<lparr>trace := modem_h4 e s @ [ModemGetNetworkRegState]\<rparr>) = Some sF"
  shows "setup_modem n e s =
     Some (Returned, sF\<lparr>trace := trace sF @ [SerialPrint (''Connected to the network'' @ CRLF)]\<rparr>)"
  using assms
  by (simp add: setup_modem_eq Let_def lteConnect_def call_def exec_eq getNetworkRegState_def
      modem_h0_def modem_h2_def modem_h3_def modem_h4_def)

lemma failing_call_no_failure:
  "restart_op ev \<Longrightarrow> ret e (h @ a @ [ev]) = 0 \<Longrightarrow> \<not> no_failure restart_op e h (a @ ev # b)"
  by (simp add: no_failure_append)

text \<open>
  C1, as amended: when modem initialisation, PDP context creation, setting the operational
  state or the network selection mode (the LTE attach), socket creation, configuration or
  connection, the packet send or the socket close reports failure, the sketch only logs,
  delays 1000 ms and restarts the device at once (\<open>failures_restart\<close> over
  \<open>restart_op\<close>), and the function ends as \<open>Restarted\<close>. The device restarts for no
  other reason: a run in which none of these operations fails returns without a restart,
  whatever the display initialisation, the RAT query and the cell-information query
  report. For the boot sequence this is not only a statement about the runs that end:
  once the display loop has ended, a failure of \<open>modem.begin\<close>, \<open>createPDPContext\<close>,
  \<open>setOpState\<close> or \<open>setNetworkSelectionMode\<close> makes \<open>setup\<close> end, with the restart as
  its last call and the state written out; and when all four succeed, \<open>setup\<close> returns as
  soon as the wait for the network registration ends.
\<close>

theorem C1_guarded_failures_restart:
  "failures_restart restart_op e (trace s) (new_calls s (snd (loop e s)))
   \<and> (no_failure restart_op e (trace s) (new_calls s (snd (loop e s))) \<longrightarrow>
        fst (loop e s) = Returned \<and> EspRestart \<notin> set (new_calls s (snd (loop e s))))
   \<and> (\<not> no_failure restart_op e (trace s) (new_calls s (snd (loop e s))) \<longrightarrow>
        fst (loop e s) = Restarted)
   \<and> (setup_sketch fuel e s = Some (out, s') \<longrightarrow>
        failures_restart restart_op e (trace s) (new_calls s s')
        \<and> (no_failure restart_op e (trace s) (new_calls s s') \<longrightarrow>
             out = Returned \<and> EspRestart \<notin> set (new_calls s s'))
        \<and> (\<not> no_failure restart_op e (trace s) (new_calls s s') \<longrightarrow> out = Restarted))
   \<and> (setup_display fuel e s = Some s1 \<longrightarrow>
        (ret e (modem_h0 (setup_sensor e s1)) = 0 \<longrightarrow>
           setup_sketch fuel e s = Some (Restarted,
             (setup_sensor e s1)\<lparr>trace := modem_h0 (setup_sensor e s1) @
                [SerialPrint (''Modem initialization ERROR'' @ CRLF), Delay 1000, EspRestart]\<rparr>))
        \<and> (ret e (modem_h0 (setup_sensor e s1)) \<noteq> 0
            \<and> ret e (modem_h2 e (setup_sensor e s1)) = 0 \<longrightarrow>
           setup_sketch fuel e s = Some (Restarted,
             (setup_sensor e s1)\<lparr>trace := modem_h2 e (setup_sensor e s1) @
                [SerialPrintln ''Could not create PDP context'', Delay 1000, EspRestart]\<rparr>))
        \<and> (ret e (modem_h0 (setup_sensor e s1)) \<noteq> 0
            \<and> ret e (modem_h2 e (setup_sensor e s1)) \<noteq> 0
            \<and> ret e (modem_h3 e (setup_sensor e s1)) = 0 \<longrightarrow>
           setup_sketch fuel e s = Some (Restarted,
             (setup_sensor e s1)\<lparr>trace := modem_h3 e (setup_sensor e s1) @
                [SerialPrint (''Could not set operational state to FULL'' @ CRLF),
                 SerialPrint (''Could not connect to the LTE network'' @ CRLF),
                 Delay 1000, EspRestart]\<rparr>))
        \<and> (ret e (modem_h0 (setup_sensor e s1)) \<noteq> 0
            \<and> ret e (modem_h2 e (setup_sensor e s1)) \<noteq> 0
            \<and> ret e (modem_h3 e (setup_sensor e s1)) \<noteq> 0
            \<and> ret e (modem_h4 e (setup_sensor e s1)) = 0 \<longrightarrow>
           setup_sketch fuel e s = Some (Restarted,
             (setup_sensor e s1)\<lparr>trace := modem_h4 e (setup_sensor e s1) @
                [SerialPrint (''Could not set the network selection mode to automatic'' @ CRLF),
                 SerialPrint (''Could not connect to the LTE network'' @ CRLF),
                 Delay 1000, EspRestart]\<rparr>))
        \<and> (ret e (modem_h0 (setup_sensor e s1)) \<noteq> 0
            \<and> ret e (modem_h2 e (setup_sensor e s1)) \<noteq> 0
            \<and> ret e (modem_h3 e (setup_sensor e s1)) \<noteq> 0
            \<and> ret e (modem_h4 e (setup_sensor e s1)) \<noteq> 0
            \<and> lteConnect_wait fuel e
                 (regstate_rsp e (modem_h4 e (setup_sensor e s1) @ [ModemGetNetworkRegState]))
                 ((setup_sensor e s1)\<lparr>trace := modem_h4 e (setup_sensor e s1)
                                                  @ [ModemGetNetworkRegState]\<rparr>) = Some sF \<longrightarrow>
           setup_sketch fuel e s = Some (Returned,
             sF\<lparr>trace := trace sF @ [SerialPrint (''Connected to the network'' @ CRLF)]\<rparr>)))"
proof -
  have L: "failures_restart restart_op e (trace s) (new_calls s (snd (loop e s)))
   \<and> (no_failure restart_op e (trace s) (new_calls s (snd (loop e s))) \<longrightarrow>
        fst (loop e s) = Returned \<and> EspRestart \<notin> set (new_calls s (snd (loop e s))))
   \<and> (\<not> no_failure restart_op e (trace s) (new_calls s (snd (loop e s))) \<longrightarrow>
        fst (loop e s) = Restarted)"
    using good_failures_restart [OF loop_good, of e s] good_no_failure [OF loop_good, of e s]
      loop_failure_Restarted [of e s]
    by blast
  have S: "setup_sketch fuel e s = Some (out, s') \<longrightarrow>
        failures_restart restart_op e (trace s) (new_calls s s')
        \<and> (no_failure restart_op e (trace s) (new_calls s s') \<longrightarrow>
             out = Returned \<and> EspRestart \<notin> set (new_calls s s'))
        \<and> (\<not> no_failure restart_op e (trace s) (new_calls s s') \<longrightarrow> out = Restarted)"
    using good_failures_restart [OF setup_sketch_good, of fuel e s out s']
      good_no_failure [OF setup_sketch_good, of fuel e s out s']
      setup_failure_Restarted [of fuel e s out s']
    by blast
  have T: "setup_display fuel e s = Some s1 \<Longrightarrow>
      setup_sketch fuel e s = setup_modem fuel e (setup_sensor e s1)"
    by (rule setup_sketch_display)
  note R = setup_modem_restarts [of e "setup_sensor e s1" fuel]
  note Q = setup_modem_returns [of e "setup_sensor e s1" fuel sF]
  show ?thesis
    apply (intro conjI)
        apply (rule L [THEN conjunct1])
       apply (rule L [THEN conjunct2, THEN conjunct1])
      apply (rule L [THEN conjunct2, THEN conjunct2])
     apply (rule S)
    apply (rule impI)
    apply (simp only: T)
    apply (intro conjI impI)
        apply (rule R [THEN conjunct1, THEN mp], assumption)
       apply (rule R [THEN conjunct2, THEN conjunct1, THEN mp], assumption)
      apply (rule R [THEN conjunct2, THEN conjunct2, THEN conjunct1, THEN mp], assumption)
     apply (rule R [THEN conjunct2, THEN conjunct2, THEN conjunct2, THEN mp], assumption)
    apply (rule Q; (elim conjE)?; assumption)
    done
qed

lemma failing_display:
  "\<not> P (ScreenBegin SCREEN_ADDRESS) \<Longrightarrow>
   \<exists>s1. setup_display n (env_failing P) boot_state = Some s1"
  by (rule setup_display_ok) (simp add: env_failing_def env_of_def)

lemma soft_display: "\<exists>s1. setup_display (Suc 0) env_setup_soft boot_state = Some s1"
  by (simp add: setup_display_def exec_eq call_def env_setup_soft_def env_of_def boot_state_def)

lemma sf_no_failure:
  "\<not> no_failure restart_op env_send_fails (trace sample_state)
        (new_calls sample_state (snd (loop env_send_fails sample_state)))"
  by (simp add: run_defs env_send_fails_def)

theorem C1_guarded_failures_restart_witness:
  "no_failure restart_op env_cell_fails (trace sample_state)
     (new_calls sample_state (snd (loop env_cell_fails sample_state)))
   \<and> fst (loop env_cell_fails sample_state) = Returned
   \<and> EspRestart \<notin> set (new_calls sample_state (snd (loop env_cell_fails sample_state)))
   \<and> \<not> no_failure restart_op env_send_fails (trace sample_state)
        (new_calls sample_state (snd (loop env_send_fails sample_state)))
   \<and> fst (loop env_send_fails sample_state) = Restarted
   \<and> failures_restart restart_op env_send_fails (trace sample_state)
        (new_calls sample_state (snd (loop env_send_fails sample_state)))
   \<and> map_option fst (setup_sketch (Suc 0) env_setup_soft boot_state) = Some Returned
   \<and> no_failure restart_op env_setup_soft (trace boot_state)
        (new_calls boot_state (snd (the (setup_sketch (Suc 0) env_setup_soft boot_state))))
   \<and> EspRestart \<notin> set (new_calls boot_state
        (snd (the (setup_sketch (Suc 0) env_setup_soft boot_state))))
   \<and> setup_display (Suc 0) env_setup_soft boot_state \<noteq> None
   \<and> ret env_setup_soft (modem_h0 (setup_sensor env_setup_soft
        (the (setup_display (Suc 0) env_setup_soft boot_state)))) \<noteq> 0
   \<and> ret env_setup_soft (modem_h2 env_setup_soft (setup_sensor env_setup_soft
        (the (setup_display (Suc 0) env_setup_soft boot_state)))) \<noteq> 0
   \<and> ret env_setup_soft (modem_h3 env_setup_soft (setup_sensor env_setup_soft
        (the (setup_display (Suc 0) env_setup_soft boot_state)))) \<noteq> 0
   \<and> ret env_setup_soft (modem_h4 env_setup_soft (setup_sensor env_setup_soft
        (the (setup_display (Suc 0) env_setup_soft boot_state)))) \<noteq> 0
   \<and> setup_display 0 (env_failing (\<lambda>ev. ev = ModemBegin)) boot_state \<noteq> None
   \<and> ret (env_failing (\<lambda>ev. ev = ModemBegin))
        (modem_h0 (setup_sensor (env_failing (\<lambda>ev. ev = ModemBegin))
           (the (setup_display 0 (env_failing (\<lambda>ev. ev = ModemBegin)) boot_state)))) = 0
   \<and> map_option fst (setup_sketch 0 (env_failing (\<lambda>ev. ev = ModemBegin)) boot_state)
        = Some Restarted
   \<and> \<not> no_failure restart_op (env_failing (\<lambda>ev. ev = ModemBegin)) (trace boot_state)
        (new_calls boot_state
           (snd (the (setup_sketch 0 (env_failing (\<lambda>ev. ev = ModemBegin)) boot_state))))
   \<and> map_option fst (setup_sketch 0 (env_failing (\<lambda>ev. ev = ModemCreatePDPContext []))
        boot_state) = Some Restarted
   \<and> map_option fst (setup_sketch 0 (env_failing (\<lambda>ev. ev = ModemSetOpStateFull))
        boot_state) = Some Restarted
   \<and> map_option fst (setup_sketch 0
        (env_failing (\<lambda>ev. ev = ModemSetNetworkSelectionModeAutomatic)) boot_state)
        = Some Restarted"
proof -
  obtain x where x: "setup_sketch (Suc 0) env_setup_soft boot_state = Some (Returned, x)"
    and nf: "no_failure restart_op env_setup_soft [] (trace x)"
    using su_run by blast
  have nf': "no_failure restart_op env_setup_soft (trace boot_state) (new_calls boot_state x)"
    using nf by (simp add: boot_state_def new_calls_def)
  have soft: "EspRestart \<notin> set (new_calls boot_state x)"
    using C1_guarded_failures_restart [where e = env_setup_soft and s = boot_state and fuel = "Suc 0"
        and out = Returned and s' = x] x nf'
    by blast
  obtain g where g: "setup_display (Suc 0) env_setup_soft boot_state = Some g"
    using soft_display by blast
  have g0: "ret env_setup_soft (modem_h0 (setup_sensor env_setup_soft g)) \<noteq> 0"
    "ret env_setup_soft (modem_h2 env_setup_soft (setup_sensor env_setup_soft g)) \<noteq> 0"
    "ret env_setup_soft (modem_h3 env_setup_soft (setup_sensor env_setup_soft g)) \<noteq> 0"
    "ret env_setup_soft (modem_h4 env_setup_soft (setup_sensor env_setup_soft g)) \<noteq> 0"
    by (simp_all add: modem_h0_def modem_h2_def modem_h3_def modem_h4_def env_setup_soft_def
        env_of_def)
  have gw: "lteConnect_wait (Suc 0) env_setup_soft
      (regstate_rsp env_setup_soft
         (modem_h4 env_setup_soft (setup_sensor env_setup_soft g) @ [ModemGetNetworkRegState]))
      ((setup_sensor env_setup_soft g)\<lparr>trace :=
         modem_h4 env_setup_soft (setup_sensor env_setup_soft g) @ [ModemGetNetworkRegState]\<rparr>)
      = Some ((setup_sensor env_setup_soft g)\<lparr>trace :=
         modem_h4 env_setup_soft (setup_sensor env_setup_soft g) @ [ModemGetNetworkRegState]\<rparr>)"
    by (simp add: env_setup_soft_def env_of_def)
  have gr: "map_option fst (setup_sketch (Suc 0) env_setup_soft boot_state) = Some Returned"
    using C1_guarded_failures_restart [where e = env_setup_soft and s = boot_state
        and fuel = "Suc 0" and ?s1.0 = g, THEN conjunct2, THEN conjunct2, THEN conjunct2,
        THEN conjunct2, THEN mp, OF g, THEN conjunct2, THEN conjunct2, THEN conjunct2,
        THEN conjunct2, THEN mp, OF conjI [OF g0(1) conjI [OF g0(2) conjI [OF g0(3)
        conjI [OF g0(4) gw]]]]]
    by simp
  have cf: "EspRestart \<notin> set (new_calls sample_state (snd (loop env_cell_fails sample_state)))"
    using C1_guarded_failures_restart [where e = env_cell_fails and s = sample_state] cf_trace by blast
  have sf: "fst (loop env_send_fails sample_state) = Restarted"
    using C1_guarded_failures_restart [where e = env_send_fails and s = sample_state] sf_no_failure by blast
  let ?E0 = "env_failing (\<lambda>ev. ev = ModemBegin)"
  obtain a where a: "setup_display 0 ?E0 boot_state = Some a"
    using failing_display [of "\<lambda>ev. ev = ModemBegin" 0] by auto
  have a0: "ret ?E0 (modem_h0 (setup_sensor ?E0 a)) = 0"
    by (simp add: modem_h0_def env_failing_def env_of_def)
  have ar: "setup_sketch 0 ?E0 boot_state = Some (Restarted,
             (setup_sensor ?E0 a)\<lparr>trace := modem_h0 (setup_sensor ?E0 a) @
                [SerialPrint (''Modem initialization ERROR'' @ CRLF), Delay 1000, EspRestart]\<rparr>)"
    using C1_guarded_failures_restart [where e = ?E0 and s = boot_state and fuel = 0 and ?s1.0 = a] a a0 by blast
  have anf: "\<not> no_failure restart_op ?E0 (trace boot_state)
        (new_calls boot_state (snd (the (setup_sketch 0 ?E0 boot_state))))"
  proof -
    have "\<not> no_failure restart_op ?E0 []
        ((trace (setup_sensor ?E0 a) @ displayStatus_calls ''Starting modem...'') @ ModemBegin #
           [SerialPrint (''Modem initialization ERROR'' @ CRLF), Delay 1000, EspRestart])"
      by (rule failing_call_no_failure) (simp_all add: restart_op_def env_failing_def env_of_def)
    moreover have "trace (snd (the (setup_sketch 0 ?E0 boot_state))) =
        modem_h0 (setup_sensor ?E0 a) @
          [SerialPrint (''Modem initialization ERROR'' @ CRLF), Delay 1000, EspRestart]"
      by (simp add: ar)
    moreover have "trace boot_state = []" by (simp add: boot_state_def)
    ultimately show ?thesis by (simp add: new_calls_def modem_h0_def)
  qed
  let ?E1 = "env_failing (\<lambda>ev. ev = ModemCreatePDPContext [])"
  obtain b where b: "setup_display 0 ?E1 boot_state = Some b"
    using failing_display [of "\<lambda>ev. ev = ModemCreatePDPContext []" 0] by auto
  have b0: "ret ?E1 (modem_h0 (setup_sensor ?E1 b)) \<noteq> 0 \<and> ret ?E1 (modem_h2 ?E1 (setup_sensor ?E1 b)) = 0"
    by (simp add: modem_h0_def modem_h2_def env_failing_def env_of_def)
  have br: "map_option fst (setup_sketch 0 ?E1 boot_state) = Some Restarted"
    using C1_guarded_failures_restart [where e = ?E1 and s = boot_state and fuel = 0 and ?s1.0 = b] b b0 by simp
  let ?E2 = "env_failing (\<lambda>ev. ev = ModemSetOpStateFull)"
  obtain c where c: "setup_display 0 ?E2 boot_state = Some c"
    using failing_display [of "\<lambda>ev. ev = ModemSetOpStateFull" 0] by auto
  have c0: "ret ?E2 (modem_h0 (setup_sensor ?E2 c)) \<noteq> 0 \<and> ret ?E2 (modem_h2 ?E2 (setup_sensor ?E2 c)) \<noteq> 0
      \<and> ret ?E2 (modem_h3 ?E2 (setup_sensor ?E2 c)) = 0"
    by (simp add: modem_h0_def modem_h2_def modem_h3_def env_failing_def env_of_def)
  have cr: "map_option fst (setup_sketch 0 ?E2 boot_state) = Some Restarted"
    using C1_guarded_failures_restart [where e = ?E2 and s = boot_state and fuel = 0 and ?s1.0 = c] c c0 by simp
  let ?E3 = "env_failing (\<lambda>ev. ev = ModemSetNetworkSelectionModeAutomatic)"
  obtain d where d: "setup_display 0 ?E3 boot_state = Some d"
    using failing_display [of "\<lambda>ev. ev = ModemSetNetworkSelectionModeAutomatic" 0] by auto
  have d0: "ret ?E3 (modem_h0 (setup_sensor ?E3 d)) \<noteq> 0 \<and> ret ?E3 (modem_h2 ?E3 (setup_sensor ?E3 d)) \<noteq> 0
      \<and> ret ?E3 (modem_h3 ?E3 (setup_sensor ?E3 d)) \<noteq> 0 \<and> ret ?E3 (modem_h4 ?E3 (setup_sensor ?E3 d)) = 0"
    by (simp add: modem_h0_def modem_h2_def modem_h3_def modem_h4_def env_failing_def env_of_def)
  have dr: "map_option fst (setup_sketch 0 ?E3 boot_state) = Some Restarted"
    using C1_guarded_failures_restart [where e = ?E3 and s = boot_state and fuel = 0 and ?s1.0 = d] d d0 by simp
  show ?thesis
    using cf_trace cf sf_no_failure sf sf_trace x nf' soft g g0 gr a a0 ar anf br cr dr
    by simp
qed

theorem C1_unguarded_failures_counterexample:
  "fst (loop env_cell_fails sample_state) = Returned
   \<and> \<not> failures_restart failure_op env_cell_fails (trace sample_state)
        (new_calls sample_state (snd (loop env_cell_fails sample_state)))
   \<and> map_option fst (setup_sketch (Suc 0) env_setup_soft boot_state) = Some Returned
   \<and> \<not> failures_restart failure_op env_setup_soft (trace boot_state)
        (new_calls boot_state (snd (the (setup_sketch (Suc 0) env_setup_soft boot_state))))"
proof -
  obtain x where x: "setup_sketch (Suc 0) env_setup_soft boot_state = Some (Returned, x)"
    and nf: "\<not> failures_restart failure_op env_setup_soft [] (trace x)"
    using su_run by blast
  have "\<not> failures_restart failure_op env_setup_soft (trace boot_state) (new_calls boot_state x)"
    using nf by (simp add: boot_state_def new_calls_def)
  then show ?thesis using cf_trace x by simp
qed

section \<open>The order of an iteration\<close>

lemma nolog_read_calls: "filter (\<lambda>ev. \<not> is_log ev) (read_calls dm r) = read_calls dm r"
  by (simp add: read_calls_def is_log_def)

lemma nolog_write_calls: "filter (\<lambda>ev. \<not> is_log ev) (write_calls dm r v) = write_calls dm r v"
  by (simp add: write_calls_def is_log_def)

lemma nolog_displayStatus_calls:
  "filter (\<lambda>ev. \<not> is_log ev) (displayStatus_calls st) = displayStatus_calls st"
  by (simp add: displayStatus_calls_def is_log_def)

lemma nolog_displaySPL_calls:
  "filter (\<lambda>ev. \<not> is_log ev) (displaySPL_calls a b c) = displaySPL_calls a b c"
  by (simp add: displaySPL_calls_def is_log_def)

lemma nolog_measure_calls:
  "filter (\<lambda>ev. \<not> is_log ev) (measure_calls a b c) =
     read_calls dbmeter DBM_REG_DECIBEL @ read_calls dbmeter DBM_REG_MIN
       @ read_calls dbmeter DBM_REG_MAX @ displayStatus_calls ''Transmitting...''
       @ write_calls dbmeter DBM_REG_RESET 2"
  by (simp add: measure_calls_def nolog_read_calls nolog_write_calls nolog_displayStatus_calls)
     (simp add: is_log_def)

lemma nolog_cell_calls:
  "filter (\<lambda>ev. \<not> is_log ev) (cell_calls e h) = [ModemGetCellInformation]"
  by (simp add: cell_calls_def is_log_def)

lemma nolog_socket_calls:
  "socket_ok e ip port h \<Longrightarrow>
   filter (\<lambda>ev. \<not> is_log ev) (socket_calls e ip port h) =
     [ModemCreateSocket, ModemConfigSocket, ModemConnectSocket ip port port]"
  by (simp add: socket_calls_def socket_ok_def is_log_def)

lemmas nolog_simps = nolog_measure_calls nolog_cell_calls nolog_socket_calls nolog_displaySPL_calls

lemma loop_Returned_nolog:
  assumes "fst (loop e s) = Returned"
  shows "filter (\<lambda>ev. \<not> is_log ev) (new_calls s (snd (loop e s))) =
       read_calls dbmeter DBM_REG_DECIBEL @ read_calls dbmeter DBM_REG_MIN
         @ read_calls dbmeter DBM_REG_MAX @ displayStatus_calls ''Transmitting...''
         @ write_calls dbmeter DBM_REG_RESET 2
         @ [ModemGetCellInformation, ModemCreateSocket, ModemConfigSocket,
            ModemConnectSocket SERV_ADDR SERV_PORT SERV_PORT,
            ModemSocketSend (cell_buf e (loop_h1 e (trace s)) (loop_buf1 e (trace s) (dataBuf s)))
              PACKET_SIZE,
            Delay 5000, ModemGetCellInformation, ModemCloseSocket]
         @ displaySPL_calls (reading e (trace s) DBM_REG_DECIBEL)
             (reading e (trace s @ read_calls dbmeter DBM_REG_DECIBEL) DBM_REG_MIN)
             (reading e (trace s @ read_calls dbmeter DBM_REG_DECIBEL
                           @ read_calls dbmeter DBM_REG_MIN) DBM_REG_MAX)
         @ [Delay 60000]"
    and "last (new_calls s (snd (loop e s))) = Delay 60000"
proof -
  have ok: "socket_ok e SERV_ADDR SERV_PORT (loop_h1 e (trace s) @ cell_calls e (loop_h1 e (trace s)))"
    using assms by (simp add: loop_eq Let_def split: if_splits)
  have h1: "loop_h1 e (trace s) = trace s @ (drop (length (trace s)) (loop_h1 e (trace s)))"
    by (simp add: loop_h1_def)
  show "filter (\<lambda>ev. \<not> is_log ev) (new_calls s (snd (loop e s))) =
       read_calls dbmeter DBM_REG_DECIBEL @ read_calls dbmeter DBM_REG_MIN
         @ read_calls dbmeter DBM_REG_MAX @ displayStatus_calls ''Transmitting...''
         @ write_calls dbmeter DBM_REG_RESET 2
         @ [ModemGetCellInformation, ModemCreateSocket, ModemConfigSocket,
            ModemConnectSocket SERV_ADDR SERV_PORT SERV_PORT,
            ModemSocketSend (cell_buf e (loop_h1 e (trace s)) (loop_buf1 e (trace s) (dataBuf s)))
              PACKET_SIZE,
            Delay 5000, ModemGetCellInformation, ModemCloseSocket]
         @ displaySPL_calls (reading e (trace s) DBM_REG_DECIBEL)
             (reading e (trace s @ read_calls dbmeter DBM_REG_DECIBEL) DBM_REG_MIN)
             (reading e (trace s @ read_calls dbmeter DBM_REG_DECIBEL
                           @ read_calls dbmeter DBM_REG_MIN) DBM_REG_MAX)
         @ [Delay 60000]"
    using assms ok
    by (simp add: loop_eq Let_def new_calls_def loop_h1_def [of e "trace s"] nolog_simps
        split: if_splits) (simp add: is_log_def loop_h1_def)
  show "last (new_calls s (snd (loop e s))) = Delay 60000"
    using assms
    by (simp add: loop_eq Let_def new_calls_def loop_h1_def [of e "trace s"] split: if_splits)
qed

lemma loop_Restarted_last:
  assumes "fst (loop e s) = Restarted"
  shows "last (new_calls s (snd (loop e s))) = EspRestart"
  using loop_good [of e s] assms by (auto simp: good_def)

lemma loop_measure_fst:
  "fst (loop_measure e s) = reading e (trace s) DBM_REG_DECIBEL"
  "fst (snd (loop_measure e s)) = reading e (trace s @ read_calls dbmeter DBM_REG_DECIBEL) DBM_REG_MIN"
  "fst (snd (snd (loop_measure e s))) =
     reading e (trace s @ read_calls dbmeter DBM_REG_DECIBEL @ read_calls dbmeter DBM_REG_MIN)
       DBM_REG_MAX"
  "trace (snd (snd (snd (loop_measure e s)))) = loop_h1 e (trace s)"
  "dataBuf (snd (snd (snd (loop_measure e s)))) = loop_buf1 e (trace s) (dataBuf s)"
  by (simp_all add: loop_measure_eq Let_def loop_h1_def loop_buf1_def)

text \<open>
  C4, as amended: every iteration that runs to its end, which is every iteration in which
  socket creation, configuration and connection, the send and the close all succeed, makes
  these calls in this order (serial logging left out): read the current, the minimum and
  the maximum decibel value; show the transmit status and reset the sensor's min/max;
  query the cell information; create, configure and connect the socket; send the packet;
  wait 5000 ms and query the cell information again; close the socket; update the display
  with the measured values; sleep 60000 ms. So the display update comes after the socket
  is closed and the sleep is last. An iteration in which one of those operations fails
  stops there: after the failed call it only logs, delays 1000 ms and restarts the device.
\<close>

theorem C4_completed_iteration_order:
  "(fst (loop e s) = Returned \<longrightarrow>
      (case loop_measure e s of (db, dbmin, dbmax, s1) \<Rightarrow>
         filter (\<lambda>ev. \<not> is_log ev) (new_calls s (snd (loop e s))) =
           read_calls dbmeter DBM_REG_DECIBEL @ read_calls dbmeter DBM_REG_MIN
             @ read_calls dbmeter DBM_REG_MAX
             @ displayStatus_calls ''Transmitting...'' @ write_calls dbmeter DBM_REG_RESET 2
             @ [ModemGetCellInformation,
                ModemCreateSocket, ModemConfigSocket,
                ModemConnectSocket SERV_ADDR SERV_PORT SERV_PORT,
                ModemSocketSend (dataBuf (cell_block e s1)) PACKET_SIZE,
                Delay 5000, ModemGetCellInformation,
                ModemCloseSocket]
             @ displaySPL_calls db dbmin dbmax
             @ [Delay 60000])
      \<and> last (new_calls s (snd (loop e s))) = Delay 60000)
   \<and> (fst (loop e s) = Returned) =
       no_failure restart_op e (trace s) (new_calls s (snd (loop e s)))
   \<and> (fst (loop e s) = Restarted \<longrightarrow> last (new_calls s (snd (loop e s))) = EspRestart)
   \<and> failures_restart restart_op e (trace s) (new_calls s (snd (loop e s)))"
proof -
  have a: "fst (loop e s) = Returned \<Longrightarrow>
      (case loop_measure e s of (db, dbmin, dbmax, s1) \<Rightarrow>
         filter (\<lambda>ev. \<not> is_log ev) (new_calls s (snd (loop e s))) =
           read_calls dbmeter DBM_REG_DECIBEL @ read_calls dbmeter DBM_REG_MIN
             @ read_calls dbmeter DBM_REG_MAX
             @ displayStatus_calls ''Transmitting...'' @ write_calls dbmeter DBM_REG_RESET 2
             @ [ModemGetCellInformation,
                ModemCreateSocket, ModemConfigSocket,
                ModemConnectSocket SERV_ADDR SERV_PORT SERV_PORT,
                ModemSocketSend (dataBuf (cell_block e s1)) PACKET_SIZE,
                Delay 5000, ModemGetCellInformation,
                ModemCloseSocket]
             @ displaySPL_calls db dbmin dbmax
             @ [Delay 60000])"
    using loop_Returned_nolog(1) [of e s]
    by (simp only: loop_measure_eq Let_def cell_block_eq prod.case state.simps loop_h1_def
        loop_buf1_def state.update_convs) simp
  have b: "(fst (loop e s) = Returned) =
       no_failure restart_op e (trace s) (new_calls s (snd (loop e s)))"
    using loop_good [of e s] good_no_failure [OF loop_good, of e s]
    by (cases "fst (loop e s)") (auto simp: good_def)
  note c = loop_Returned_nolog(2) [of e s] and d = loop_Restarted_last [of e s]
    and f = good_failures_restart [OF loop_good, of e s]
  show ?thesis
    by (intro conjI impI) (rule a b c d f, assumption?)+
qed

lemma create_fails_run:
  "fst (loop env_create_fails sample_state) = Restarted
   \<and> sent (new_calls sample_state (snd (loop env_create_fails sample_state))) = []
   \<and> ModemCloseSocket \<notin> set (new_calls sample_state (snd (loop env_create_fails sample_state)))
   \<and> ScreenSetTextSize 2
        \<notin> set (new_calls sample_state (snd (loop env_create_fails sample_state)))
   \<and> Delay 60000 \<notin> set (new_calls sample_state (snd (loop env_create_fails sample_state)))
   \<and> last (new_calls sample_state (snd (loop env_create_fails sample_state))) = EspRestart"
  by (simp add: loop_eq sample_state_eq eval_defs new_calls_def env_create_fails_def)

theorem C4_completed_iteration_order_witness:
  "fst (loop env_cell_fails sample_state) = Returned
   \<and> last (new_calls sample_state (snd (loop env_cell_fails sample_state))) = Delay 60000
   \<and> no_failure restart_op env_cell_fails (trace sample_state)
        (new_calls sample_state (snd (loop env_cell_fails sample_state)))
   \<and> fst (loop env_create_fails sample_state) = Restarted
   \<and> last (new_calls sample_state (snd (loop env_create_fails sample_state))) = EspRestart"
  using C4_completed_iteration_order [of env_cell_fails sample_state]
    C4_completed_iteration_order [of env_create_fails sample_state]
    cf_trace create_fails_run
  by simp

theorem C4_failed_iteration_counterexample:
  "fst (loop env_create_fails sample_state) = Restarted
   \<and> sent (new_calls sample_state (snd (loop env_create_fails sample_state))) = []
   \<and> ModemCloseSocket \<notin> set (new_calls sample_state (snd (loop env_create_fails sample_state)))
   \<and> ScreenSetTextSize 2
        \<notin> set (new_calls sample_state (snd (loop env_create_fails sample_state)))
   \<and> Delay 60000 \<notin> set (new_calls sample_state (snd (loop env_create_fails sample_state)))
   \<and> last (new_calls sample_state (snd (loop env_create_fails sample_state))) = EspRestart"
  by (simp add: loop_eq sample_state_eq eval_defs new_calls_def env_create_fails_def)

section \<open>The layout of the packet\<close>

lemma nth_pack_cell:
  assumes "length buf = 20"
  shows "pack_cell e ci buf ! 9 = ucast (drop_bit 8 (cc ci))"
    "pack_cell e ci buf ! 10 = ucast (cc ci AND 0xFF)"
    "pack_cell e ci buf ! 11 = ucast (drop_bit 8 (nc ci))"
    "pack_cell e ci buf ! 12 = ucast (nc ci AND 0xFF)"
    "pack_cell e ci buf ! 13 = ucast (drop_bit 8 (tac ci))"
    "pack_cell e ci buf ! 14 = ucast (tac ci AND 0xFF)"
    "pack_cell e ci buf ! 15 = ucast (drop_bit 24 (cid ci) AND 0xFF)"
    "pack_cell e ci buf ! 16 = ucast (drop_bit 16 (cid ci) AND 0xFF)"
    "pack_cell e ci buf ! 17 = ucast (drop_bit 8 (cid ci) AND 0xFF)"
    "pack_cell e ci buf ! 18 = ucast (cid ci AND 0xFF)"
    "pack_cell e ci buf ! 19 = float_to_uint8 e (rsrp ci * (-1))"
  using assms by (simp_all add: pack_cell_def)

lemma float_to_uint8_trunc:
  assumes "0 \<le> x" and "x < 256"
  shows "uint (float_to_uint8 e x) = \<lfloor>x\<rfloor>"
proof -
  have "0 \<le> \<lfloor>x\<rfloor>" using assms by simp
  moreover have "\<lfloor>x\<rfloor> < 256" using assms by (simp add: floor_less_iff)
  ultimately have "uint (word_of_int \<lfloor>x\<rfloor> :: uint8_t) = \<lfloor>x\<rfloor>"
    by (simp add: uint_word_of_int take_bit_eq_mod)
  then show ?thesis using assms by (simp add: float_to_uint8_def)
qed

lemma nth_loop_buf1:
  assumes "length buf = 20"
  shows "loop_buf1 e h buf ! 6 = reading e h DBM_REG_DECIBEL"
    "loop_buf1 e h buf ! 7 = reading e (h @ read_calls dbmeter DBM_REG_DECIBEL) DBM_REG_MIN"
    "loop_buf1 e h buf ! 8 =
       reading e (h @ read_calls dbmeter DBM_REG_DECIBEL @ read_calls dbmeter DBM_REG_MIN) DBM_REG_MAX"
  using assms by (simp_all add: loop_buf1_def)

lemma cell_buf_low: "i < 9 \<Longrightarrow> cell_buf e h buf ! i = buf ! i"
  by (simp add: cell_buf_def pack_cell_def)

text \<open>
  C8: in every iteration bytes 6, 7, 8 of \<open>dataBuf\<close> are set to the current, minimum and
  maximum decibel readings, and the packet handed to \<open>socketSend\<close> is \<open>dataBuf\<close> as it
  stands after the first cell-information block, with those three bytes. Whenever a
  cell-information query succeeds (before the send, or after it), the block leaves in
  \<open>dataBuf\<close> the response's \<open>cc\<close>, \<open>nc\<close>, \<open>tac\<close> in bytes 9-10, 11-12, 13-14 and the
  32-bit cell ID in bytes 15-18, most significant byte first, and in byte 19 the negated
  RSRP converted to \<open>uint8_t\<close>, which is its integer part when that lies in 0..255; bytes
  0 to 8 are left alone.
\<close>

theorem C8_packet_layout:
  "(length (dataBuf s) = PACKET_SIZE \<longrightarrow>
     (case loop_measure e s of (db, dbmin, dbmax, s1) \<Rightarrow>
        db = fst (readDecibel e dbmeter s)
        \<and> dbmin = fst (readMinDecibel e dbmeter (snd (readDecibel e dbmeter s)))
        \<and> dbmax = fst (readMaxDecibel e dbmeter
                     (snd (readMinDecibel e dbmeter (snd (readDecibel e dbmeter s)))))
        \<and> dataBuf s1 ! 6 = db \<and> dataBuf s1 ! 7 = dbmin \<and> dataBuf s1 ! 8 = dbmax
        \<and> dataBuf (snd (loop e s)) ! 6 = db \<and> dataBuf (snd (loop e s)) ! 7 = dbmin
        \<and> dataBuf (snd (loop e s)) ! 8 = dbmax
        \<and> (\<forall>(b, n) \<in> set (sent (new_calls s (snd (loop e s)))).
              b = dataBuf (cell_block e s1) \<and> b ! 6 = db \<and> b ! 7 = dbmin \<and> b ! 8 = dbmax)))
   \<and> (length (dataBuf t) = PACKET_SIZE \<and> fst (getCellInformation e t) \<noteq> 0 \<longrightarrow>
        (let ci = rsp (cell_block e t); b = dataBuf (cell_block e t) in
           ci = cell_rsp e (trace t @ [ModemGetCellInformation])
           \<and> unat (b ! 9) * 256 + unat (b ! 10) = unat (cc ci)
           \<and> unat (b ! 11) * 256 + unat (b ! 12) = unat (nc ci)
           \<and> unat (b ! 13) * 256 + unat (b ! 14) = unat (tac ci)
           \<and> unat (b ! 15) * 16777216 + unat (b ! 16) * 65536 + unat (b ! 17) * 256
               + unat (b ! 18) = unat (cid ci)
           \<and> b ! 19 = float_to_uint8 e (- rsrp ci)
           \<and> (0 \<le> - rsrp ci \<and> - rsrp ci < 256 \<longrightarrow> uint (b ! 19) = \<lfloor>- rsrp ci\<rfloor>)
           \<and> take 9 b = take 9 (dataBuf t)))"
proof -
  have A: "length (dataBuf s) = PACKET_SIZE \<Longrightarrow>
     (case loop_measure e s of (db, dbmin, dbmax, s1) \<Rightarrow>
        db = fst (readDecibel e dbmeter s)
        \<and> dbmin = fst (readMinDecibel e dbmeter (snd (readDecibel e dbmeter s)))
        \<and> dbmax = fst (readMaxDecibel e dbmeter
                     (snd (readMinDecibel e dbmeter (snd (readDecibel e dbmeter s)))))
        \<and> dataBuf s1 ! 6 = db \<and> dataBuf s1 ! 7 = dbmin \<and> dataBuf s1 ! 8 = dbmax
        \<and> dataBuf (snd (loop e s)) ! 6 = db \<and> dataBuf (snd (loop e s)) ! 7 = dbmin
        \<and> dataBuf (snd (loop e s)) ! 8 = dbmax
        \<and> (\<forall>(b, n) \<in> set (sent (new_calls s (snd (loop e s)))).
              b = dataBuf (cell_block e s1) \<and> b ! 6 = db \<and> b ! 7 = dbmin \<and> b ! 8 = dbmax))"
  proof -
    assume len: "length (dataBuf s) = PACKET_SIZE"
    then have l20: "length (dataBuf s) = 20" by (simp add: PACKET_SIZE_def)
    note nb = nth_loop_buf1 [OF l20, of e "trace s"]
    have fin: "dataBuf (snd (loop e s)) ! i = loop_buf1 e (trace s) (dataBuf s) ! i" if "i < 9" for i
      using that by (simp add: loop_eq Let_def cell_buf_low)
    show ?thesis
      by (simp add: loop_measure_eq Let_def readDecibel_def readMinDecibel_def readMaxDecibel_def
          readRegister_eq reading_def [symmetric] loop_sent cell_block_eq fin cell_buf_low
          loop_buf1_def [symmetric] loop_h1_def [symmetric] nb)
         (simp add: reading_def)
  qed
  have B: "length (dataBuf t) = PACKET_SIZE \<and> fst (getCellInformation e t) \<noteq> 0 \<Longrightarrow>
        (let ci = rsp (cell_block e t); b = dataBuf (cell_block e t) in
           ci = cell_rsp e (trace t @ [ModemGetCellInformation])
           \<and> unat (b ! 9) * 256 + unat (b ! 10) = unat (cc ci)
           \<and> unat (b ! 11) * 256 + unat (b ! 12) = unat (nc ci)
           \<and> unat (b ! 13) * 256 + unat (b ! 14) = unat (tac ci)
           \<and> unat (b ! 15) * 16777216 + unat (b ! 16) * 65536 + unat (b ! 17) * 256
               + unat (b ! 18) = unat (cid ci)
           \<and> b ! 19 = float_to_uint8 e (- rsrp ci)
           \<and> (0 \<le> - rsrp ci \<and> - rsrp ci < 256 \<longrightarrow> uint (b ! 19) = \<lfloor>- rsrp ci\<rfloor>)
           \<and> take 9 b = take 9 (dataBuf t))"
  proof -
    assume h: "length (dataBuf t) = PACKET_SIZE \<and> fst (getCellInformation e t) \<noteq> 0"
    then have l20: "length (dataBuf t) = 20" and ok: "cell_ok e (trace t)"
      by (simp_all add: PACKET_SIZE_def getCellInformation_def call_def cell_ok_def)
    define ci where "ci = cell_info e (trace t)"
    have r: "rsp (cell_block e t) = ci" "dataBuf (cell_block e t) = pack_cell e ci (dataBuf t)"
      using ok by (simp_all add: cell_block_eq cell_buf_def ci_def)
    note np = nth_pack_cell [OF l20, of e ci]
    have tr: "0 \<le> - rsrp ci \<and> - rsrp ci < 256 \<longrightarrow>
        uint (float_to_uint8 e (- rsrp ci)) = \<lfloor>- rsrp ci\<rfloor>"
      using float_to_uint8_trunc [of "- rsrp ci" e] by simp
    show ?thesis
      unfolding Let_def r np
      using tr
      by (simp only: split16 split32 take_pack_cell) (simp add: ci_def cell_info_def)
  qed
  show ?thesis by (intro conjI impI) (rule A B, assumption)+
qed

lemma sample_cell_ok:
  "fst (getCellInformation (env_of sensor_ret)
     (snd (snd (snd (loop_measure (env_of sensor_ret) sample_state))))) \<noteq> 0"
  by (simp add: getCellInformation_def call_def loop_measure_eq sample_state_eq eval_defs)

lemma sample_cell_rsp:
  "rsp (cell_block (env_of sensor_ret)
     (snd (snd (snd (loop_measure (env_of sensor_ret) sample_state))))) = sample_cell"
  by (simp add: cell_block_eq cell_info_def env_of_def)

theorem C8_packet_layout_witness:
  "length (dataBuf sample_state) = PACKET_SIZE
   \<and> fst (getCellInformation (env_of sensor_ret)
        (snd (snd (snd (loop_measure (env_of sensor_ret) sample_state))))) \<noteq> 0
   \<and> 0 \<le> - rsrp sample_cell \<and> - rsrp sample_cell < 256
   \<and> sent (new_calls sample_state (snd (loop (env_of sensor_ret) sample_state))) =
       [([0xA0, 0xA1, 0xA2, 0xA3, 0xA4, 0xA5, 0x4A, 0x4B, 0x4C, 0x00, 0xCE, 0x00, 0x01, 0x12, 0x34,
          0x01, 0x02, 0x03, 0x04, 0x61], PACKET_SIZE)]
   \<and> uint (dataBuf (cell_block (env_of sensor_ret)
        (snd (snd (snd (loop_measure (env_of sensor_ret) sample_state))))) ! 19) = 97"
proof -
  let ?E = "env_of sensor_ret"
  let ?s1 = "snd (snd (snd (loop_measure ?E sample_state)))"
  have h1: "length (dataBuf sample_state) = PACKET_SIZE"
    by (simp add: sample_state_eq PACKET_SIZE_def)
  have h1': "length (dataBuf ?s1) = PACKET_SIZE"
    using h1 by (simp add: loop_measure_eq Let_def)
  have h3: "0 \<le> - rsrp sample_cell \<and> - rsrp sample_cell < 256" "\<lfloor>- rsrp sample_cell\<rfloor> = 97"
    by (simp_all add: sample_cell_def)
  have snt: "sent (new_calls sample_state (snd (loop ?E sample_state))) =
      [(dataBuf (cell_block ?E ?s1), PACKET_SIZE)]"
    using sample_socket
    by (simp add: loop_sent loop_measure_eq cell_block_eq socketConnect_eq Let_def loop_h1_def
        loop_buf1_def)
  note B = C8_packet_layout [of sample_state ?E ?s1, THEN conjunct2, THEN mp,
      OF conjI [OF h1' sample_cell_ok], unfolded Let_def sample_cell_rsp]
  from B have "0 \<le> - rsrp sample_cell \<and> - rsrp sample_cell < 256 \<longrightarrow>
      uint (dataBuf (cell_block ?E ?s1) ! 19) = \<lfloor>- rsrp sample_cell\<rfloor>"
    by blast
  with h3 have b19: "uint (dataBuf (cell_block ?E ?s1) ! 19) = 97"
    by simp
  show ?thesis
    using h1 sample_cell_ok h3(1) b19 snt
    by (simp only: sample_packet simp_thms)
qed

section \<open>The MAC bytes\<close>

lemma setup_sketch_dataBuf:
  assumes "setup_sketch n e s0 = Some (out, s)" and "6 \<le> length (dataBuf s0)"
  shows "\<exists>h. take 6 (dataBuf s) = map (mac_rsp e h) [0..<6]"
proof -
  obtain s1 where d: "setup_display n e s0 = Some s1"
    and m: "setup_modem n e (setup_sensor e s1) = Some (out, s)"
    using assms by (auto simp: setup_sketch_def split: option.splits)
  have b1: "dataBuf s1 = dataBuf s0" using setup_display_some [OF d] by blast
  obtain h where h: "dataBuf (setup_sensor e s1) =
       (dataBuf s1)[0 := mac_rsp e h 0, 1 := mac_rsp e h 1, 2 := mac_rsp e h 2,
                   3 := mac_rsp e h 3, 4 := mac_rsp e h 4, 5 := mac_rsp e h 5]"
    using setup_sensor_eq [of e s1] by blast
  have b2: "dataBuf s = dataBuf (setup_sensor e s1)" using setup_modem_good [OF m] by simp
  obtain x0 x1 x2 x3 x4 x5 xs where xs: "dataBuf s0 = x0 # x1 # x2 # x3 # x4 # x5 # xs"
    using assms(2)
    by (cases "dataBuf s0"; cases "tl (dataBuf s0)"; cases "tl (tl (dataBuf s0))";
        cases "tl (tl (tl (dataBuf s0)))"; cases "tl (tl (tl (tl (dataBuf s0))))";
        cases "tl (tl (tl (tl (tl (dataBuf s0)))))") auto
  have "take 6 (dataBuf s) = map (mac_rsp e h) [0..<6]"
    by (simp add: b2 h b1 xs upt_rec numeral_eq_Suc)
  then show ?thesis by blast
qed

text \<open>
  C9: the main loop never writes bytes 0 to 5 of \<open>dataBuf\<close>: one iteration, and any number
  of iterations, leave the first six bytes and the length of the buffer as they were, so
  every packet sent starts with the six bytes the buffer had when the loop began; and
  those are the six bytes of the MAC address that \<open>setup\<close> stored there.
\<close>

theorem C9_loop_keeps_mac_bytes:
  "take 6 (dataBuf (snd (loop e s))) = take 6 (dataBuf s)
   \<and> length (dataBuf (snd (loop e s))) = length (dataBuf s)
   \<and> (\<forall>i<6. dataBuf (snd (loop e s)) ! i = dataBuf s ! i)
   \<and> take 6 (dataBuf (snd (run k e s))) = take 6 (dataBuf s)
   \<and> (\<forall>(b, n) \<in> set (sent (new_calls s (snd (loop e s)))). take 6 b = take 6 (dataBuf s))
   \<and> (\<forall>(b, n) \<in> set (sent (new_calls s (snd (run k e s)))). take 6 b = take 6 (dataBuf s))
   \<and> (setup_sketch fuel e s0 = Some (out, s) \<and> length (dataBuf s0) = PACKET_SIZE \<longrightarrow>
        (\<exists>h. take 6 (dataBuf s) = map (mac_rsp e h) [0..<6]))"
proof -
  have i: "dataBuf (snd (loop e s)) ! i = dataBuf s ! i" if "i < 6" for i
  proof -
    have "take 6 (dataBuf (snd (loop e s))) ! i = take 6 (dataBuf s) ! i"
      by (simp only: loop_take6)
    then show ?thesis using that by simp
  qed
  have l: "take 6 b = take 6 (dataBuf s)"
    if "(b, n) \<in> set (sent (new_calls s (snd (loop e s))))" for b n
    using loop_packets [OF that] by simp
  have r: "take 6 b = take 6 (dataBuf s)"
    if "(b, n) \<in> set (sent (new_calls s (snd (run k e s))))" for b n
    using run_packets [OF that] by simp
  have su: "\<exists>h. take 6 (dataBuf s) = map (mac_rsp e h) [0..<6]"
    if "setup_sketch fuel e s0 = Some (out, s) \<and> length (dataBuf s0) = PACKET_SIZE"
    using that setup_sketch_dataBuf [of fuel e s0 out s] by (simp add: PACKET_SIZE_def)
  show ?thesis
    using loop_take6 [of e s] loop_length [of e s] i run_frame [of k e s] l r su
    by (intro conjI allI impI ballI) auto
qed

lemma sample_loop_sent:
  "sent (new_calls sample_state (snd (loop (env_of sensor_ret) sample_state))) =
     [([0xA0, 0xA1, 0xA2, 0xA3, 0xA4, 0xA5, 0x4A, 0x4B, 0x4C, 0x00, 0xCE, 0x00, 0x01, 0x12, 0x34,
        0x01, 0x02, 0x03, 0x04, 0x61], PACKET_SIZE)]"
  using sample_socket sample_packet
  by (simp add: loop_sent loop_measure_eq cell_block_eq socketConnect_eq Let_def loop_h1_def
      loop_buf1_def)

theorem C9_loop_keeps_mac_bytes_witness:
  "take 6 (dataBuf (snd (loop (env_of sensor_ret) sample_state))) =
     [0xA0, 0xA1, 0xA2, 0xA3, 0xA4, 0xA5]
   \<and> (3::nat) < 6 \<and> dataBuf (snd (loop (env_of sensor_ret) sample_state)) ! 3 = 0xA3
   \<and> map (\<lambda>(b, n). take 6 b)
        (sent (new_calls sample_state (snd (loop (env_of sensor_ret) sample_state)))) =
       [[0xA0, 0xA1, 0xA2, 0xA3, 0xA4, 0xA5]]
   \<and> length (dataBuf boot_state) = PACKET_SIZE
   \<and> (case setup_sketch (Suc 0) env_setup_soft boot_state of
         None \<Rightarrow> False
       | Some (out, x) \<Rightarrow> take 6 (dataBuf x) = [0xA0, 0xA1, 0xA2, 0xA3, 0xA4, 0xA5])"
proof -
  let ?E = "env_of sensor_ret"
  obtain x where x: "setup_sketch (Suc 0) env_setup_soft boot_state = Some (Returned, x)"
    using su_run by blast
  have lb: "length (dataBuf boot_state) = PACKET_SIZE" by (simp add: boot_state_def)
  have t6: "take 6 (dataBuf sample_state) = [0xA0, 0xA1, 0xA2, 0xA3, 0xA4, 0xA5]"
    "dataBuf sample_state ! 3 = 0xA3"
    by (simp_all add: sample_state_eq)
  note C = C9_loop_keeps_mac_bytes [where e = ?E and s = sample_state and k = 1]
  note D = C9_loop_keeps_mac_bytes [where e = env_setup_soft and s = x and k = 1
      and fuel = "Suc 0" and ?s0.0 = boot_state and out = Returned]
  have a: "take 6 (dataBuf (snd (loop ?E sample_state))) = [0xA0, 0xA1, 0xA2, 0xA3, 0xA4, 0xA5]"
    using C t6 by simp
  have b: "dataBuf (snd (loop ?E sample_state)) ! 3 = 0xA3"
    using C t6 by simp
  have c: "map (\<lambda>(b, n). take 6 b)
        (sent (new_calls sample_state (snd (loop ?E sample_state)))) =
       [[0xA0, 0xA1, 0xA2, 0xA3, 0xA4, 0xA5]]"
    using C t6 by (simp add: sample_loop_sent)
  have "\<exists>h. take 6 (dataBuf x) = map (mac_rsp env_setup_soft h) [0..<6]"
    using D x lb by blast
  then have d: "take 6 (dataBuf x) = [0xA0, 0xA1, 0xA2, 0xA3, 0xA4, 0xA5]"
    by (auto simp: env_setup_soft_def env_of_def upt_rec numeral_eq_Suc)
  show ?thesis using a b c d x lb by simp
qed

end
